theory Spec2Isabelle
  imports Complex_Main
begin

section \<open>Python strings and values\<close>

text \<open>
  A Python \<^verbatim>\<open>str\<close> is a sequence of Unicode code points. The regular expressions of
  \<^verbatim>\<open>mca_ai/preprocess.py\<close> distinguish code points beyond Latin-1 (the whitespace class
  \<^verbatim>\<open>\s\<close> contains U+2003, for instance), so a text is a list of code points, each a
  natural number. \<open>str\<close> turns a literal of the theory into such a text. Names that the
  code only compares or concatenates (column names, split names, source names, paths,
  messages) are kept as \<^typ>\<open>string\<close>.
\<close>

type_synonym pystr = "nat list"

definition str :: "string \<Rightarrow> pystr" where
  "str s = map of_char s"

datatype pyval =
    PyNone
  | PyBool bool
  | PyInt int
  | PyFloat rat
  | PyStr (str_value: pystr)
  | PyBytes "nat list"
  | PyList "pyval list"

text \<open>\<^verbatim>\<open>isinstance(x, str)\<close>\<close>

definition isinstance_str :: "pyval \<Rightarrow> bool" where
  "isinstance_str x = (case x of PyStr s \<Rightarrow> True | _ \<Rightarrow> False)"

text \<open>
  The exceptions of the model, all of them subclasses of \<^verbatim>\<open>Exception\<close>. \<open>OtherError\<close>
  stands for whatever else a library call raises.
\<close>

datatype exn =
    RuntimeError string
  | ValueError string
  | IndexError string
  | NonMatchingSplitsSizesError string
  | OtherError string

text \<open>
  The code points for which \<^verbatim>\<open>\s\<close> matches in a \<^verbatim>\<open>str\<close> pattern, and which
  \<^verbatim>\<open>str.strip()\<close> removes: the characters for which \<^verbatim>\<open>str.isspace()\<close> holds.
\<close>

definition is_space :: "nat \<Rightarrow> bool" where
  "is_space c \<longleftrightarrow>
     (9 \<le> c \<and> c \<le> 13) \<or> (28 \<le> c \<and> c \<le> 32) \<or> c = 133 \<or> c = 160 \<or> c = 5760 \<or>
     (8192 \<le> c \<and> c \<le> 8202) \<or> c = 8232 \<or> c = 8233 \<or> c = 8239 \<or> c = 8287 \<or> c = 12288"

definition is_upper :: "nat \<Rightarrow> bool" where
  "is_upper c \<longleftrightarrow> 65 \<le> c \<and> c \<le> 90"

definition is_lower :: "nat \<Rightarrow> bool" where
  "is_lower c \<longleftrightarrow> 97 \<le> c \<and> c \<le> 122"

definition is_digit :: "nat \<Rightarrow> bool" where
  "is_digit c \<longleftrightarrow> 48 \<le> c \<and> c \<le> 57"

definition is_hex :: "nat \<Rightarrow> bool" where
  "is_hex c \<longleftrightarrow> is_digit c \<or> (97 \<le> c \<and> c \<le> 102) \<or> (65 \<le> c \<and> c \<le> 70)"

text \<open>
  \<^verbatim>\<open>str.strip()\<close> and \<^verbatim>\<open>str.lower()\<close>. \<open>lower\<close> is the lowercasing of ASCII
  letters; \<open>clean_text\<close> calls it on a text that holds ASCII characters only (lemma
  \<open>collapse_chars\<close> below), where it agrees with Python's Unicode lowercasing.
\<close>

definition strip :: "pystr \<Rightarrow> pystr" where
  "strip s = rev (dropWhile is_space (rev (dropWhile is_space s)))"

definition lower_char :: "nat \<Rightarrow> nat" where
  "lower_char c = (if is_upper c then c + 32 else c)"

definition lower :: "pystr \<Rightarrow> pystr" where
  "lower s = map lower_char s"

section \<open>Regular-expression substitution\<close>

text \<open>
  A compiled pattern is modelled by its matcher at the head of a text: \<open>p s = Some n\<close>
  when the pattern matches the first \<open>n\<close> characters of \<open>s\<close> (the match the backtracking
  engine finds there), \<open>None\<close> when it does not match at that position. None of the
  patterns of this program uses an anchor or a look-around, and none matches the empty
  string, so the matcher needs nothing but the rest of the text.

  \<open>re_sub p repl s\<close> is \<^verbatim>\<open>p.sub(repl, s)\<close>: scanning from the left, each match is
  replaced by \<open>repl\<close> applied to the matched text and the scan goes on behind the match;
  a character at which the pattern does not match is copied. An answer of the matcher
  that is not a match of at least one character inside the text counts as no match; the
  patterns below never give one.
\<close>

type_synonym pattern = "pystr \<Rightarrow> nat option"

function re_sub :: "pattern \<Rightarrow> (pystr \<Rightarrow> pystr) \<Rightarrow> pystr \<Rightarrow> pystr" where
  "re_sub p repl [] = []"
| "re_sub p repl (c # cs) =
     (case p (c # cs) of
        None \<Rightarrow> c # re_sub p repl cs
      | Some n \<Rightarrow>
          if 0 < n \<and> n \<le> Suc (length cs)
          then repl (take n (c # cs)) @ re_sub p repl (drop n (c # cs))
          else c # re_sub p repl cs)"
  by pat_completeness auto
termination
  by (relation "measure (\<lambda>(p, repl, s). length s)") auto

text \<open>
  \<open>re_sub_call p repl s\<close> is \<^verbatim>\<open>p.sub(repl, s)\<close> for a function \<open>repl\<close> that may raise:
  it is called on the matches from left to right, and the first exception that it raises
  leaves the substitution.
\<close>

function re_sub_call :: "pattern \<Rightarrow> (pystr \<Rightarrow> exn + pystr) \<Rightarrow> pystr \<Rightarrow> exn + pystr" where
  "re_sub_call p repl [] = Inr []"
| "re_sub_call p repl (c # cs) =
     (case p (c # cs) of
        None \<Rightarrow>
          (case re_sub_call p repl cs of Inl e \<Rightarrow> Inl e | Inr rest \<Rightarrow> Inr (c # rest))
      | Some n \<Rightarrow>
          if 0 < n \<and> n \<le> Suc (length cs)
          then (case repl (take n (c # cs)) of
                  Inl e \<Rightarrow> Inl e
                | Inr r \<Rightarrow>
                    (case re_sub_call p repl (drop n (c # cs)) of
                       Inl e \<Rightarrow> Inl e
                     | Inr rest \<Rightarrow> Inr (r @ rest)))
          else (case re_sub_call p repl cs of Inl e \<Rightarrow> Inl e | Inr rest \<Rightarrow> Inr (c # rest)))"
  by pat_completeness auto
termination
  by (relation "measure (\<lambda>(p, repl, s). length s)") auto

text \<open>\<^verbatim>\<open>_HTML_TAG = re.compile(r"<[^>]+>")\<close>\<close>

definition HTML_TAG :: pattern where
  "HTML_TAG s =
     (case s of
        [] \<Rightarrow> None
      | c # cs \<Rightarrow>
          if c = 60
          then (let n = length (takeWhile (\<lambda>x. x \<noteq> 62) cs)
                in if 1 \<le> n \<and> n < length cs then Some (n + 2) else None)
          else None)"

text \<open>\<^verbatim>\<open>_URL = re.compile(r"http\S+|www\.\S+")\<close>\<close>

definition URL :: pattern where
  "URL s =
     (let n = length (takeWhile (\<lambda>x. \<not> is_space x) (drop 4 s))
      in if take 4 s = str ''http'' \<and> 1 \<le> n then Some (4 + n)
         else if take 4 s = str ''www.'' \<and> 1 \<le> n then Some (4 + n)
         else None)"

text \<open>\<^verbatim>\<open>_NON_ASCII = re.compile(r"[^a-zA-Z0-9\s.,!?'-]")\<close>\<close>

definition kept_char :: "nat \<Rightarrow> bool" where
  "kept_char c \<longleftrightarrow>
     is_lower c \<or> is_upper c \<or> is_digit c \<or> is_space c \<or> c \<in> set (str ''.,!?'-'')"

definition NON_ASCII :: pattern where
  "NON_ASCII s = (case s of [] \<Rightarrow> None | c # cs \<Rightarrow> if kept_char c then None else Some 1)"

text \<open>\<^verbatim>\<open>_MULTI_SPACE = re.compile(r"\s+")\<close>\<close>

definition MULTI_SPACE :: pattern where
  "MULTI_SPACE s =
     (let n = length (takeWhile is_space s) in if 1 \<le> n then Some n else None)"

section \<open>The standard library's \<^verbatim>\<open>html.unescape\<close>\<close>

text \<open>
  \<^verbatim>\<open>html.unescape\<close> is the standard library's; the model follows its source
  (\<^verbatim>\<open>Lib/html/__init__.py\<close>). Two things of the interpreter are parameters, so that
  every theorem below that quantifies over them holds for each interpreter: the table
  \<^verbatim>\<open>html.entities.html5\<close> of 2231 named references, and the limit on the number of
  digits that \<^verbatim>\<open>int()\<close> converts from a decimal numeral
  (\<^verbatim>\<open>sys.get_int_max_str_digits()\<close>: 4300 by default since Python 3.11, 0 when there is no
  limit).

  \<^verbatim>\<open>_charref = re.compile(r'&(#[0-9]+;?|#[xX][0-9a-fA-F]+;?|[^\t\n\f <&#;]{1,32};?)')\<close>
\<close>

type_synonym entity_table = "pystr \<rightharpoonup> pystr"

record interpreter =
  html5 :: entity_table
  int_max_str_digits :: nat

definition name_char :: "nat \<Rightarrow> bool" where
  "name_char c \<longleftrightarrow> c \<notin> set (str [CHR 0x09, CHR 0x0A, CHR 0x0C, CHR '' '', CHR ''<'', CHR ''&'', CHR ''#'', CHR '';''])"

definition opt_semi :: "pystr \<Rightarrow> nat" where
  "opt_semi s = (case s of [] \<Rightarrow> 0 | c # cs \<Rightarrow> if c = 59 then 1 else 0)"

definition charref :: pattern where
  "charref s =
     (case s of
        [] \<Rightarrow> None
      | c # cs \<Rightarrow>
          if c \<noteq> 38 then None
          else (case cs of
                  [] \<Rightarrow> None
                | d # ds \<Rightarrow>
                    if d = 35
                    then (let n = length (takeWhile is_digit ds)
                          in if 1 \<le> n then Some (2 + n + opt_semi (drop n ds))
                             else (case ds of
                                     [] \<Rightarrow> None
                                   | x # hs \<Rightarrow>
                                       if x = 120 \<or> x = 88
                                       then (let m = length (takeWhile is_hex hs)
                                             in if 1 \<le> m then Some (3 + m + opt_semi (drop m hs))
                                                else None)
                                       else None))
                    else (let k = min 32 (length (takeWhile name_char cs))
                          in if 1 \<le> k then Some (1 + k + opt_semi (drop k cs)) else None)))"

text \<open>\<^verbatim>\<open>int(s)\<close> and \<^verbatim>\<open>int(s, 16)\<close> on the digits that \<open>charref\<close> has matched.\<close>

definition digit_val :: "nat \<Rightarrow> nat" where
  "digit_val c =
     (if is_digit c then c - 48 else if 97 \<le> c \<and> c \<le> 102 then c - 87 else c - 55)"

definition int_of_digits :: "nat \<Rightarrow> pystr \<Rightarrow> nat" where
  "int_of_digits base ds = foldl (\<lambda>a d. base * a + digit_val d) 0 ds"

text \<open>
  \<^verbatim>\<open>int(s)\<close> in base 10 raises \<^verbatim>\<open>ValueError\<close> when the numeral has more digits than the
  limit (and more than the threshold of 640 digits below which the interpreter does not
  look at the limit); leading zeros count. \<^verbatim>\<open>int(s, 16)\<close> has no limit.
\<close>

function show_nat :: "nat \<Rightarrow> string" where
  "show_nat n = (if n < 10 then [char_of (48 + n)] else show_nat (n div 10) @ [char_of (48 + n mod 10)])"
  by pat_completeness auto
termination
  by (relation "measure (\<lambda>n. n)") auto

definition int_limit_error :: "nat \<Rightarrow> nat \<Rightarrow> exn" where
  "int_limit_error limit n =
     ValueError (''Exceeds the limit ('' @ show_nat limit
       @ '' digits) for integer string conversion: value has '' @ show_nat n
       @ '' digits; use sys.set_int_max_str_digits() to increase the limit'')"

definition too_long :: "interpreter \<Rightarrow> nat \<Rightarrow> bool" where
  "too_long py n \<longleftrightarrow> 640 < n \<and> 0 < int_max_str_digits py \<and> int_max_str_digits py < n"

definition py_int :: "interpreter \<Rightarrow> pystr \<Rightarrow> exn + nat" where
  "py_int py ds =
     (if too_long py (length ds) then Inl (int_limit_error (int_max_str_digits py) (length ds))
      else Inr (int_of_digits 10 ds))"

definition rstrip_semi :: "pystr \<Rightarrow> pystr" where
  "rstrip_semi s = rev (dropWhile (\<lambda>c. c = 59) (rev s))"

definition invalid_charrefs :: "nat \<rightharpoonup> pystr" where
  "invalid_charrefs = map_of
     [(0x00, [0xfffd]), (0x0d, [0x0d]), (0x80, [0x20ac]), (0x81, [0x81]), (0x82, [0x201a]),
      (0x83, [0x0192]), (0x84, [0x201e]), (0x85, [0x2026]), (0x86, [0x2020]),
      (0x87, [0x2021]), (0x88, [0x02c6]), (0x89, [0x2030]), (0x8a, [0x0160]),
      (0x8b, [0x2039]), (0x8c, [0x0152]), (0x8d, [0x8d]), (0x8e, [0x017d]), (0x8f, [0x8f]),
      (0x90, [0x90]), (0x91, [0x2018]), (0x92, [0x2019]), (0x93, [0x201c]),
      (0x94, [0x201d]), (0x95, [0x2022]), (0x96, [0x2013]), (0x97, [0x2014]),
      (0x98, [0x02dc]), (0x99, [0x2122]), (0x9a, [0x0161]), (0x9b, [0x203a]),
      (0x9c, [0x0153]), (0x9d, [0x9d]), (0x9e, [0x017e]), (0x9f, [0x0178])]"

definition invalid_codepoints :: "nat \<Rightarrow> bool" where
  "invalid_codepoints n \<longleftrightarrow>
     (0x1 \<le> n \<and> n \<le> 0x8) \<or> (0xe \<le> n \<and> n \<le> 0x1f) \<or> (0x7f \<le> n \<and> n \<le> 0x9f) \<or>
     (0xfdd0 \<le> n \<and> n \<le> 0xfdef) \<or> n = 0xb \<or>
     (n \<le> 0x10ffff \<and> (n mod 0x10000 = 0xfffe \<or> n mod 0x10000 = 0xffff))"

text \<open>
  The search for the longest prefix of the name that the table knows:
  \<^verbatim>\<open>for x in range(len(s)-1, 1, -1): if s[:x] in _html5: return _html5[s[:x]] + s[x:]\<close>.
\<close>

fun prefix_search :: "entity_table \<Rightarrow> pystr \<Rightarrow> nat \<Rightarrow> pystr option" where
  "prefix_search tbl s 0 = None"
| "prefix_search tbl s (Suc x) =
     (if Suc x \<le> 1 then None
      else (case tbl (take (Suc x) s) of
              Some v \<Rightarrow> Some (v @ drop (Suc x) s)
            | None \<Rightarrow> prefix_search tbl s x))"

text \<open>\<^verbatim>\<open>_replace_charref\<close>, on the text of group 1 of the match (the match without its \<^verbatim>\<open>&\<close>).\<close>

definition replace_charref :: "interpreter \<Rightarrow> pystr \<Rightarrow> exn + pystr" where
  "replace_charref py s =
     (if take 1 s = [35]
      then (case (if take 1 (drop 1 s) = [120] \<or> take 1 (drop 1 s) = [88]
                  then Inr (int_of_digits 16 (rstrip_semi (drop 2 s)))
                  else py_int py (rstrip_semi (drop 1 s))) of
              Inl e \<Rightarrow> Inl e
            | Inr num \<Rightarrow>
                Inr (case invalid_charrefs num of
                       Some r \<Rightarrow> r
                     | None \<Rightarrow>
                         if (0xD800 \<le> num \<and> num \<le> 0xDFFF) \<or> num > 0x10FFFF then [0xFFFD]
                         else if invalid_codepoints num then []
                         else [num]))
      else Inr (case html5 py s of
                  Some v \<Rightarrow> v
                | None \<Rightarrow>
                    (case prefix_search (html5 py) s (length s - 1) of
                       Some r \<Rightarrow> r
                     | None \<Rightarrow> 38 # s)))"

definition unescape :: "interpreter \<Rightarrow> pystr \<Rightarrow> exn + pystr" where
  "unescape py s =
     (if 38 \<notin> set s then Inr s
      else re_sub_call charref (\<lambda>m. replace_charref py (drop 1 m)) s)"

text \<open>
  The named references for the five characters that HTML escaping produces, with the
  forms without semicolon that the library's table also lists: the part of
  \<^verbatim>\<open>html.entities.html5\<close> at which the closed examples below evaluate the model.
\<close>

definition html5_basic :: entity_table where
  "html5_basic = map_of
     [(str ''amp;'', str ''&''), (str ''amp'', str ''&''),
      (str ''lt;'', str ''<''), (str ''lt'', str ''<''),
      (str ''gt;'', str ''>''), (str ''gt'', str ''>''),
      (str ''quot;'', [34]), (str ''quot'', [34]),
      (str ''apos;'', [39])]"

text \<open>An interpreter with the default limit, and one without a limit.\<close>

definition default_python :: interpreter where
  "default_python = \<lparr> html5 = html5_basic, int_max_str_digits = 4300 \<rparr>"

definition unlimited_python :: interpreter where
  "unlimited_python = \<lparr> html5 = html5_basic, int_max_str_digits = 0 \<rparr>"

section \<open>\<^verbatim>\<open>mca_ai/preprocess.py\<close>\<close>

text \<open>
  \<^verbatim>\<open>clean_text\<close>: anything that is not a \<^verbatim>\<open>str\<close> gives the empty text; a text is
  unescaped, then the four substitutions run in the order of the source, then
  \<^verbatim>\<open>.strip().lower()\<close>. The function has no \<^verbatim>\<open>try\<close>: an exception of
  \<^verbatim>\<open>html.unescape\<close> leaves it. The other steps are defined on every text.
\<close>

definition clean_text :: "interpreter \<Rightarrow> pyval \<Rightarrow> exn + pystr" where
  "clean_text py x =
     (if \<not> isinstance_str x then Inr []
      else (case unescape py (str_value x) of
              Inl e \<Rightarrow> Inl e
            | Inr text \<Rightarrow>
                (let text = re_sub HTML_TAG (\<lambda>m. str '' '') text;
                     text = re_sub URL (\<lambda>m. str '' '') text;
                     text = re_sub NON_ASCII (\<lambda>m. str '' '') text;
                     text = lower (strip (re_sub MULTI_SPACE (\<lambda>m. str '' '') text))
                 in Inr text)))"

text \<open>
  A list comprehension \<^verbatim>\<open>[f(t) for t in texts]\<close>: the calls run in order and the first
  exception leaves the comprehension.
\<close>

fun map_result :: "('a \<Rightarrow> exn + 'b) \<Rightarrow> 'a list \<Rightarrow> exn + 'b list" where
  "map_result f [] = Inr []"
| "map_result f (x # xs) =
     (case f x of
        Inl e \<Rightarrow> Inl e
      | Inr y \<Rightarrow> (case map_result f xs of Inl e \<Rightarrow> Inl e | Inr ys \<Rightarrow> Inr (y # ys)))"


section \<open>Tables, datasets and the libraries around them\<close>

text \<open>
  A record of a table is a Python dict from column names to values, kept in insertion
  order; a \<^verbatim>\<open>Dataset\<close> is the list of its records in row order; a \<^verbatim>\<open>DatasetDict\<close>
  is a dict from split names to datasets.
\<close>

type_synonym row = "(string \<times> pyval) list"
type_synonym dataset = "row list"
type_synonym dataset_dict = "(string \<times> dataset) list"

text \<open>\<^verbatim>\<open>d.get(k, default)\<close> and \<^verbatim>\<open>d[k] = v\<close> on such a dict.\<close>

definition dict_get :: "('k \<times> 'v) list \<Rightarrow> 'k \<Rightarrow> 'v \<Rightarrow> 'v" where
  "dict_get d k dflt = (case map_of d k of Some v \<Rightarrow> v | None \<Rightarrow> dflt)"

fun dict_set :: "('k \<times> 'v) list \<Rightarrow> 'k \<Rightarrow> 'v \<Rightarrow> ('k \<times> 'v) list" where
  "dict_set [] k v = [(k, v)]"
| "dict_set ((k', v') # d) k v = (if k' = k then (k, v) # d else (k', v') # dict_set d k v)"

text \<open>
  The configuration object \<^verbatim>\<open>app_cfg\<close>, with the attributes that
  \<^verbatim>\<open>mca_ai/data_loader.py\<close> reads. \<open>fast_limit = None\<close> stands for an attribute that is
  absent or \<^verbatim>\<open>None\<close>. \<^verbatim>\<open>map_num_proc\<close> only sets the number of worker processes of
  \<^verbatim>\<open>Dataset.map\<close> and is left out. Floats are written as the rational their literal
  denotes; the model never computes with them, it hands them to the library.
\<close>

record data_cfg =
  source :: string
  hf_dataset :: string
  split_ratio :: "rat list"
  fast_limit :: "int option"
  text_field :: string

record paths_cfg =
  data_dir :: string

record app_cfg =
  data :: data_cfg
  paths :: paths_cfg
  seed :: int

text \<open>
  The calls of \<^verbatim>\<open>datasets.load_dataset\<close> that the program makes: on a dataset of the
  hub, with \<^verbatim>\<open>download_mode\<close> and \<^verbatim>\<open>ignore_verifications\<close>, or with a builder name and
  \<^verbatim>\<open>data_files\<close>.
\<close>

datatype load_request =
    Remote string "string option" bool
  | LocalFiles string "(string \<times> string) list"

text \<open>
  What the program takes from its environment, over a state \<open>'w\<close> of the world (file
  system, dataset cache, network, the global random generator):
  \<^item> \<open>python\<close>: the interpreter, with its table of named references and its limit for
    \<^verbatim>\<open>int()\<close>;
  \<^item> \<open>load_dataset\<close>: \<^verbatim>\<open>datasets.load_dataset\<close> without \<^verbatim>\<open>split=\<close>, which returns a
    \<^verbatim>\<open>DatasetDict\<close> or raises;
  \<^item> \<open>load_split\<close>: \<^verbatim>\<open>datasets.load_dataset\<close> with \<^verbatim>\<open>split=\<close>, which returns a
    \<^verbatim>\<open>Dataset\<close> or raises;
  \<^item> \<open>split_indices n test_size seed\<close>: the row indices of the train and of the test part
    that \<^verbatim>\<open>Dataset.train_test_split\<close> computes for a dataset of \<open>n\<close> rows (the sizes
    from \<open>test_size\<close>, the shuffle from the seed), or the error it raises;
  \<^item> \<open>path_exists\<close>, \<open>rmtree\<close>, \<open>expanduser\<close>: \<^verbatim>\<open>os.path.exists\<close>,
    \<^verbatim>\<open>shutil.rmtree\<close>, \<^verbatim>\<open>os.path.expanduser\<close>;
  \<^item> \<open>randbelow n\<close>: the next draw of the global generator of module \<^verbatim>\<open>random\<close> for
    a sequence of \<open>n\<close> items.
\<close>

record 'w library =
  python :: interpreter
  load_dataset :: "load_request \<Rightarrow> 'w \<Rightarrow> (exn + dataset_dict) \<times> 'w"
  load_split :: "load_request \<Rightarrow> string \<Rightarrow> 'w \<Rightarrow> (exn + dataset) \<times> 'w"
  split_indices :: "nat \<Rightarrow> rat \<Rightarrow> int \<Rightarrow> exn + (nat list \<times> nat list)"
  path_exists :: "string \<Rightarrow> 'w \<Rightarrow> bool"
  rmtree :: "string \<Rightarrow> 'w \<Rightarrow> (exn + unit) \<times> 'w"
  expanduser :: "string \<Rightarrow> string"
  randbelow :: "nat \<Rightarrow> 'w \<Rightarrow> nat \<times> 'w"

text \<open>\<^verbatim>\<open>Dataset.select(indices)\<close>: the rows at the indices, in their order.\<close>

definition select :: "dataset \<Rightarrow> nat list \<Rightarrow> exn + dataset" where
  "select d indices =
     (if \<forall>i \<in> set indices. i < length d then Inr (map (\<lambda>i. d ! i) indices)
      else Inl (IndexError ''Index out of range''))"

text \<open>\<^verbatim>\<open>range(n)\<close> for a Python integer \<open>n\<close>: empty when \<open>n\<close> is not positive.\<close>

definition py_range :: "int \<Rightarrow> nat list" where
  "py_range n = [0..<nat n]"

text \<open>
  \<^verbatim>\<open>Dataset.train_test_split(test_size=..., seed=...)\<close>: the library computes the two
  index lists from the number of rows and selects them. The pair is
  \<^verbatim>\<open>(result["train"], result["test"])\<close>.
\<close>

definition train_test_split ::
  "'w library \<Rightarrow> dataset \<Rightarrow> rat \<Rightarrow> int \<Rightarrow> exn + (dataset \<times> dataset)" where
  "train_test_split L d test_size sd =
     (case split_indices L (length d) test_size sd of
        Inl e \<Rightarrow> Inl e
      | Inr (train_indices, test_indices) \<Rightarrow>
          (case select d train_indices of
             Inl e \<Rightarrow> Inl e
           | Inr train \<Rightarrow>
               (case select d test_indices of
                  Inl e \<Rightarrow> Inl e
                | Inr test \<Rightarrow> Inr (train, test))))"

text \<open>\<^verbatim>\<open>xs[1]\<close>\<close>

definition index1 :: "'a list \<Rightarrow> exn + 'a" where
  "index1 xs = (if 1 < length xs then Inr (xs ! 1) else Inl (IndexError ''list index out of range''))"

text \<open>
  \<^verbatim>\<open>random.choice(seq)\<close> on a non-empty sequence. The draw of the generator is reduced
  modulo the length, so that the item exists whatever the library value is.
\<close>

definition choice :: "'w library \<Rightarrow> 'a list \<Rightarrow> 'w \<Rightarrow> 'a \<times> 'w" where
  "choice L seq w = (case randbelow L (length seq) w of (k, w') \<Rightarrow> (seq ! (k mod length seq), w'))"

text \<open>\<^verbatim>\<open>str(n)\<close> for a natural number, as the f-string formats it.\<close>

function str_of_nat :: "nat \<Rightarrow> pystr" where
  "str_of_nat n = (if n < 10 then [48 + n] else str_of_nat (n div 10) @ [48 + n mod 10])"
  by pat_completeness auto
termination
  by (relation "measure (\<lambda>n. n)") auto

section \<open>\<^verbatim>\<open>mca_ai/data_loader.py\<close>\<close>

subsection \<open>\<^verbatim>\<open>clear_dataset_cache\<close>\<close>

definition replace_slash :: "string \<Rightarrow> string" where
  "replace_slash s = concat (map (\<lambda>c. if c = CHR ''/'' then ''___'' else [c]) s)"

definition path_join :: "string \<Rightarrow> string \<Rightarrow> string" where
  "path_join a b =
     (if take 1 b = ''/'' then b
      else if a = [] \<or> last a = CHR ''/'' then a @ b
      else a @ ''/'' @ b)"

text \<open>
  The body runs under \<^verbatim>\<open>try ... except Exception\<close>, so a failure of \<^verbatim>\<open>rmtree\<close> leaves
  the world as the failed call left it and nothing is raised. The \<^verbatim>\<open>print\<close> calls of
  this module write to the standard output only and are not modelled.
\<close>

definition clear_dataset_cache :: "'w library \<Rightarrow> string \<Rightarrow> 'w \<Rightarrow> 'w" where
  "clear_dataset_cache L dataset_name w =
     (let cache_dir = expanduser L ''~/.cache/huggingface/datasets'';
          dataset_cache_dir = path_join cache_dir (replace_slash dataset_name)
      in if path_exists L dataset_cache_dir w then snd (rmtree L dataset_cache_dir w) else w)"

subsection \<open>\<^verbatim>\<open>load_dataset_with_fallback\<close>\<close>

text \<open>
  Four \<^verbatim>\<open>try\<close> blocks in a row. Each returns at once when its load succeeds; each
  \<^verbatim>\<open>except Exception\<close> prints and falls through to the next block. In the fourth block
  the inner bare \<^verbatim>\<open>except\<close> catches the failure of the test split and splits the train
  split instead; an error of that split (or of \<^verbatim>\<open>split_ratio[1]\<close>) is caught by the
  outer handler. After the fourth block the function raises \<^verbatim>\<open>RuntimeError\<close>.
\<close>

definition all_failed :: "string \<Rightarrow> exn" where
  "all_failed dataset_name = RuntimeError (''All strategies failed to load dataset: '' @ dataset_name)"

definition load_dataset_with_fallback ::
  "'w library \<Rightarrow> app_cfg \<Rightarrow> 'w \<Rightarrow> (exn + dataset_dict) \<times> 'w" where
  "load_dataset_with_fallback L app_cfg w =
     (let dataset_name = hf_dataset (data app_cfg) in
      case load_dataset L (Remote dataset_name None False) w of
        (Inr ds, w1) \<Rightarrow> (Inr ds, w1)
      | (Inl e1, w1) \<Rightarrow>
     (case load_dataset L (Remote dataset_name (Some ''force_redownload'') False)
             (clear_dataset_cache L dataset_name w1) of
        (Inr ds, w2) \<Rightarrow> (Inr ds, w2)
      | (Inl e2, w2) \<Rightarrow>
     (case load_dataset L (Remote dataset_name None True) w2 of
        (Inr ds, w3) \<Rightarrow> (Inr ds, w3)
      | (Inl e3, w3) \<Rightarrow>
     (case load_split L (Remote dataset_name None True) ''train'' w3 of
        (Inl e4, w4) \<Rightarrow> (Inl (all_failed dataset_name), w4)
      | (Inr train_ds, w4) \<Rightarrow>
          (case load_split L (Remote dataset_name None True) ''test'' w4 of
             (Inr test_ds, w5) \<Rightarrow> (Inr [(''train'', train_ds), (''test'', test_ds)], w5)
           | (Inl e5, w5) \<Rightarrow>
               (case index1 (split_ratio (data app_cfg)) of
                  Inl e6 \<Rightarrow> (Inl (all_failed dataset_name), w5)
                | Inr test_size \<Rightarrow>
                    (case train_test_split L train_ds test_size (seed app_cfg) of
                       Inl e7 \<Rightarrow> (Inl (all_failed dataset_name), w5)
                     | Inr (train_ds', test_ds) \<Rightarrow>
                         (Inr [(''train'', train_ds'), (''test'', test_ds)], w5))))))))"

subsection \<open>\<^verbatim>\<open>create_synthetic_dataset\<close>\<close>

definition positive_texts :: "pystr list" where
  "positive_texts = map str
     [''I love this new policy! It's exactly what we need for our community.'',
      ''This is a fantastic initiative that will benefit everyone.'',
      ''Great work on this proposal. I fully support it.'',
      ''Excellent idea! This will make a real difference.'',
      ''I'm very happy with this decision. Thank you for listening.'',
      ''This is wonderful news for our city.'',
      ''I strongly support this measure. It's well thought out.'',
      ''Perfect! This addresses all my concerns.'',
      ''Outstanding work! This is exactly what we needed.'',
      ''I'm thrilled about this development.'']"

definition negative_texts :: "pystr list" where
  "negative_texts = map str
     [''This policy is terrible and will hurt our community.'',
      ''I strongly oppose this initiative. It's a bad idea.'',
      ''This proposal is poorly thought out and will cause problems.'',
      ''I'm very disappointed with this decision.'',
      ''This is a waste of taxpayer money.'',
      ''I cannot support this measure. It's harmful.'',
      ''This is a terrible idea that will backfire.'',
      ''I'm outraged by this proposal.'',
      ''This will make things worse, not better.'',
      ''I strongly disagree with this approach.'']"

definition neutral_texts :: "pystr list" where
  "neutral_texts = map str
     [''I have mixed feelings about this policy.'',
      ''This seems like a reasonable approach, but I have some concerns.'',
      ''I need more information before I can form an opinion.'',
      ''This is an interesting proposal that deserves consideration.'',
      ''I see both pros and cons to this initiative.'',
      ''This is a complex issue that requires careful analysis.'',
      ''I'm not sure if this is the right solution.'',
      ''This could work, but there might be better alternatives.'',
      ''I have questions about the implementation details.'',
      ''This is worth discussing further.'']"

text \<open>
  The loop \<^verbatim>\<open>for i in range(num_examples)\<close>: \<open>generate L i k w\<close> runs the \<open>k\<close> rounds
  from index \<open>i\<close> on and returns the texts and labels they append, with the world after
  the draws.
\<close>

fun generate :: "'w library \<Rightarrow> nat \<Rightarrow> nat \<Rightarrow> 'w \<Rightarrow> (pystr \<times> pystr) list \<times> 'w" where
  "generate L i 0 w = ([], w)"
| "generate L i (Suc k) w =
     (case choice L [str ''positive'', str ''negative'', str ''neutral''] w of
        (sentiment, w1) \<Rightarrow>
          (case (if sentiment = str ''positive'' then choice L positive_texts w1
                 else if sentiment = str ''negative'' then choice L negative_texts w1
                 else choice L neutral_texts w1) of
             (text, w2) \<Rightarrow>
               (case generate L (i + 1) k w2 of
                  (rest, w3) \<Rightarrow>
                    ((text @ str '' This is comment #'' @ str_of_nat (i + 1)
                        @ str '' about the proposed policy.'', sentiment) # rest, w3))))"

text \<open>\<^verbatim>\<open>Dataset.from_dict({"text": texts, "label": labels, "id": ids})\<close>\<close>

definition from_dict :: "pystr list \<Rightarrow> pystr list \<Rightarrow> nat list \<Rightarrow> dataset" where
  "from_dict texts labels ids =
     map (\<lambda>(t, l, i). [(''text'', PyStr t), (''label'', PyStr l), (''id'', PyInt (int i))])
       (zip texts (zip labels ids))"

definition create_synthetic_dataset ::
  "'w library \<Rightarrow> nat \<Rightarrow> 'w \<Rightarrow> (exn + dataset_dict) \<times> 'w" where
  "create_synthetic_dataset L num_examples w =
     (case generate L 0 num_examples w of
        (pairs, w') \<Rightarrow>
          (let dataset = from_dict (map fst pairs) (map snd pairs) [0..<num_examples]
           in case train_test_split L dataset (2 / 10) 42 of
                Inl e \<Rightarrow> (Inl e, w')
              | Inr (train, test) \<Rightarrow> (Inr [(''train'', train), (''test'', test)], w')))"

subsection \<open>\<^verbatim>\<open>load_dataset_any\<close>\<close>

text \<open>
  The branches for the three local file sources differ in the builder name and the file
  name only: the file is loaded when it exists (an error of the load is not caught),
  otherwise the synthetic dataset of 1000 examples takes its place.
\<close>

definition load_local ::
  "'w library \<Rightarrow> string \<Rightarrow> string \<Rightarrow> 'w \<Rightarrow> (exn + dataset_dict) \<times> 'w" where
  "load_local L builder file_path w =
     (if path_exists L file_path w then load_dataset L (LocalFiles builder [(''train'', file_path)]) w
      else create_synthetic_dataset L 1000 w)"

text \<open>
  The choice of the source: the \<^verbatim>\<open>if ... elif ... else\<close> chain on \<^verbatim>\<open>source\<close>. The value
  is \<open>ds\<close>, which the source initialises with \<^verbatim>\<open>None\<close>; \<open>assigned\<close> is the assignment
  of a loaded dataset to it.
\<close>

definition assigned :: "(exn + dataset_dict) \<times> 'w \<Rightarrow> (exn + dataset_dict option) \<times> 'w" where
  "assigned r = (case r of (Inl e, w) \<Rightarrow> (Inl e, w) | (Inr ds, w) \<Rightarrow> (Inr (Some ds), w))"

definition resolve_source ::
  "'w library \<Rightarrow> app_cfg \<Rightarrow> 'w \<Rightarrow> (exn + dataset_dict option) \<times> 'w" where
  "resolve_source L app_cfg w =
     (let src = source (data app_cfg)
      in if src = ''hf_remote'' then
           (case load_dataset_with_fallback L app_cfg w of
              (Inr ds, w') \<Rightarrow> (Inr (Some ds), w')
            | (Inl e, w') \<Rightarrow> assigned (create_synthetic_dataset L 1000 w'))
         else if src = ''local_json'' then
           assigned (load_local L ''json'' (data_dir (paths app_cfg) @ ''/train.jsonl'') w)
         else if src = ''local_parquet'' then
           assigned (load_local L ''parquet'' (data_dir (paths app_cfg) @ ''/train.parquet'') w)
         else if src = ''csv'' then
           assigned (load_local L ''csv'' (data_dir (paths app_cfg) @ ''/train.csv'') w)
         else if src = ''synthetic'' then
           assigned (create_synthetic_dataset L 1000 w)
         else (Inl (ValueError (''Unknown data source: '' @ src)), w))"

text \<open>
  ``Ensure splits'': every value that reaches this point is a \<^verbatim>\<open>DatasetDict\<close> (both
  library loaders without \<^verbatim>\<open>split=\<close> and both functions above return one), so the
  \<^verbatim>\<open>isinstance\<close> test holds and its \<^verbatim>\<open>else\<close> branch is not part of the model.
\<close>

definition ensure_splits :: "'w library \<Rightarrow> app_cfg \<Rightarrow> dataset_dict \<Rightarrow> exn + dataset_dict" where
  "ensure_splits L app_cfg ds =
     (case map_of ds ''train'' of
        None \<Rightarrow> Inr ds
      | Some train \<Rightarrow>
          if map_of ds ''test'' \<noteq> None then Inr ds
          else (case index1 (split_ratio (data app_cfg)) of
                  Inl e \<Rightarrow> Inl e
                | Inr test_size \<Rightarrow>
                    (case train_test_split L train test_size (seed app_cfg) of
                       Inl e \<Rightarrow> Inl e
                     | Inr (train', test) \<Rightarrow> Inr [(''train'', train'), (''test'', test)])))"

text \<open>
  ``Apply fast limit'': the loop over the splits, each cut to its first \<open>fast_limit\<close>
  rows when it has more.
\<close>

fun limit_splits :: "int \<Rightarrow> dataset_dict \<Rightarrow> exn + dataset_dict" where
  "limit_splits n [] = Inr []"
| "limit_splits n ((split_name, d) # rest) =
     (case (if int (length d) > n then select d (py_range n) else Inr d) of
        Inl e \<Rightarrow> Inl e
      | Inr d' \<Rightarrow>
          (case limit_splits n rest of
             Inl e \<Rightarrow> Inl e
           | Inr rest' \<Rightarrow> Inr ((split_name, d') # rest')))"

definition apply_fast_limit :: "int option \<Rightarrow> dataset_dict \<Rightarrow> exn + dataset_dict" where
  "apply_fast_limit limit ds = (case limit of None \<Rightarrow> Inr ds | Some n \<Rightarrow> limit_splits n ds)"

text \<open>
  ``Clean and standardize text field'': \<^verbatim>\<open>_map_clean\<close> and \<^verbatim>\<open>ds.map\<close>, which applies it
  to every record of every split and stores the returned column in the record. An
  exception of \<^verbatim>\<open>clean_text\<close> on a record leaves \<^verbatim>\<open>ds.map\<close>.
\<close>

definition map_clean :: "interpreter \<Rightarrow> string \<Rightarrow> row \<Rightarrow> exn + row" where
  "map_clean py orig_field example =
     (let text = dict_get example orig_field (PyStr [])
      in case clean_text py text of
           Inl e \<Rightarrow> Inl e
         | Inr cleaned \<Rightarrow> Inr (dict_set example ''text'' (PyStr cleaned)))"

fun ds_map :: "(row \<Rightarrow> exn + row) \<Rightarrow> dataset_dict \<Rightarrow> exn + dataset_dict" where
  "ds_map f [] = Inr []"
| "ds_map f ((split_name, d) # rest) =
     (case map_result f d of
        Inl e \<Rightarrow> Inl e
      | Inr d' \<Rightarrow>
          (case ds_map f rest of
             Inl e \<Rightarrow> Inl e
           | Inr rest' \<Rightarrow> Inr ((split_name, d') # rest')))"

text \<open>
  The three steps after the source is resolved, in the order of the source: ensure the
  splits, apply the row cap, clean the text field. An error of a step leaves
  \<open>load_dataset_any\<close> as that error.
\<close>

definition finish :: "'w library \<Rightarrow> app_cfg \<Rightarrow> dataset_dict \<Rightarrow> exn + dataset_dict" where
  "finish L app_cfg ds =
     (case ensure_splits L app_cfg ds of
        Inl e \<Rightarrow> Inl e
      | Inr ds1 \<Rightarrow>
          (case apply_fast_limit (fast_limit (data app_cfg)) ds1 of
             Inl e \<Rightarrow> Inl e
           | Inr ds2 \<Rightarrow> ds_map (map_clean (python L) (text_field (data app_cfg))) ds2))"

definition load_dataset_any ::
  "'w library \<Rightarrow> app_cfg \<Rightarrow> 'w \<Rightarrow> (exn + dataset_dict) \<times> 'w" where
  "load_dataset_any L app_cfg w =
     (case resolve_source L app_cfg w of
        (Inl e, w') \<Rightarrow> (Inl e, w')
      | (Inr None, w') \<Rightarrow> (Inl (RuntimeError ''Failed to load dataset''), w')
      | (Inr (Some ds), w') \<Rightarrow> (finish L app_cfg ds, w'))"


section \<open>Notions of the specification\<close>


text \<open>No two whitespace characters stand next to each other.\<close>

fun single_spaced :: "pystr \<Rightarrow> bool" where
  "single_spaced [] = True"
| "single_spaced [c] = True"
| "single_spaced (a # b # r) = (\<not> (is_space a \<and> is_space b) \<and> single_spaced (b # r))"


text \<open>
  The form of a cleaned text: lowercase letters, digits, the space and the six
  punctuation marks only, single spaces, none of them at either end.
\<close>

definition out_char :: "nat \<Rightarrow> bool" where
  "out_char c \<longleftrightarrow> is_lower c \<or> is_digit c \<or> c = 32 \<or> c \<in> set (str ''.,!?'-'')"

definition clean_form :: "pystr \<Rightarrow> bool" where
  "clean_form r \<longleftrightarrow>
     (\<forall>c \<in> set r. out_char c) \<and> single_spaced r \<and>
     (r = [] \<or> (\<not> is_space (hd r) \<and> \<not> is_space (last r)))"

text \<open>
  The remote resolution as the specification words it: an ordered list of attempts,
  (a) plain load, (b) clear the cache and force a fresh fetch, (c) load without
  verification, (d) load the splits one by one and make a missing test split from the
  train split. The first attempt that succeeds wins; when all have failed the resolution
  fails with the given fatal error.
\<close>

type_synonym 'w attempt = "'w \<Rightarrow> (exn + dataset_dict) \<times> 'w"

definition plain_load :: "'w library \<Rightarrow> app_cfg \<Rightarrow> 'w attempt" where
  "plain_load L app_cfg w = load_dataset L (Remote (hf_dataset (data app_cfg)) None False) w"

definition fresh_fetch :: "'w library \<Rightarrow> app_cfg \<Rightarrow> 'w attempt" where
  "fresh_fetch L app_cfg w =
     load_dataset L (Remote (hf_dataset (data app_cfg)) (Some ''force_redownload'') False)
       (clear_dataset_cache L (hf_dataset (data app_cfg)) w)"

definition skip_verification :: "'w library \<Rightarrow> app_cfg \<Rightarrow> 'w attempt" where
  "skip_verification L app_cfg w = load_dataset L (Remote (hf_dataset (data app_cfg)) None True) w"

definition split_policy :: "'w library \<Rightarrow> app_cfg \<Rightarrow> dataset \<Rightarrow> exn + dataset_dict" where
  "split_policy L app_cfg train =
     (case index1 (split_ratio (data app_cfg)) of
        Inl e \<Rightarrow> Inl e
      | Inr ratio \<Rightarrow>
          (case train_test_split L train ratio (seed app_cfg) of
             Inl e \<Rightarrow> Inl e
           | Inr (tr, te) \<Rightarrow> Inr [(''train'', tr), (''test'', te)]))"

definition splits_individually :: "'w library \<Rightarrow> app_cfg \<Rightarrow> 'w attempt" where
  "splits_individually L app_cfg w =
     (case load_split L (Remote (hf_dataset (data app_cfg)) None True) ''train'' w of
        (Inl e, w1) \<Rightarrow> (Inl e, w1)
      | (Inr train, w1) \<Rightarrow>
          (case load_split L (Remote (hf_dataset (data app_cfg)) None True) ''test'' w1 of
             (Inr test, w2) \<Rightarrow> (Inr [(''train'', train), (''test'', test)], w2)
           | (Inl e, w2) \<Rightarrow> (split_policy L app_cfg train, w2)))"

fun first_success :: "'w attempt list \<Rightarrow> exn \<Rightarrow> 'w attempt" where
  "first_success [] fatal w = (Inl fatal, w)"
| "first_success (a # rest) fatal w =
     (case a w of
        (Inr ds, w') \<Rightarrow> (Inr ds, w')
      | (Inl e, w') \<Rightarrow> first_success rest fatal w')"

text \<open>The row cap on one split, for a limit and for a configured limit.\<close>

definition cut :: "int \<Rightarrow> dataset \<Rightarrow> dataset" where
  "cut n d = (if n < int (length d) then take (nat n) d else d)"

definition capped :: "int option \<Rightarrow> dataset \<Rightarrow> dataset" where
  "capped limit d = (case limit of None \<Rightarrow> d | Some n \<Rightarrow> cut n d)"

text \<open>The file that a local source reads.\<close>

definition local_path :: "app_cfg \<Rightarrow> string" where
  "local_path app_cfg =
     data_dir (paths app_cfg) @
       (if source (data app_cfg) = ''local_json'' then ''/train.jsonl''
        else if source (data app_cfg) = ''local_parquet'' then ''/train.parquet''
        else ''/train.csv'')"

text \<open>The number of records of all splits; the ids and the labels of the records, split by split.\<close>

definition total_rows :: "dataset_dict \<Rightarrow> nat" where
  "total_rows ds = sum_list (map (\<lambda>(split_name, d). length d) ds)"

definition split_ids :: "dataset_dict \<Rightarrow> (string \<times> pyval option list) list" where
  "split_ids ds = map (\<lambda>(split_name, d). (split_name, map (\<lambda>r. map_of r ''id'') d)) ds"

definition split_labels :: "dataset_dict \<Rightarrow> (string \<times> pyval option list) list" where
  "split_labels ds = map (\<lambda>(split_name, d). (split_name, map (\<lambda>r. map_of r ''label'') d)) ds"

text \<open>
  What the library must do for the synthetic dataset to come out as the program expects:
  \<^verbatim>\<open>train_test_split(test_size=0.2, seed=42)\<close> on 1000 rows gives 800 train and 200 test
  indices, all of them rows of the dataset.
\<close>

definition splits_synthetic :: "'w library \<Rightarrow> bool" where
  "splits_synthetic L \<longleftrightarrow>
     (case split_indices L 1000 (2 / 10) 42 of
        Inl e \<Rightarrow> False
      | Inr (train_indices, test_indices) \<Rightarrow>
          length train_indices = 800 \<and> length test_indices = 200 \<and>
          (\<forall>i \<in> set (train_indices @ test_indices). i < 1000))"

text \<open>The steps of \<open>clean_text\<close> that follow \<^verbatim>\<open>html.unescape\<close>.\<close>

definition tidy :: "pystr \<Rightarrow> pystr" where
  "tidy u = lower (strip (re_sub MULTI_SPACE (\<lambda>m. str '' '') (re_sub NON_ASCII (\<lambda>m. str '' '')
              (re_sub URL (\<lambda>m. str '' '') (re_sub HTML_TAG (\<lambda>m. str '' '') u)))))"


text \<open>
  A decimal character reference with more digits than \<^verbatim>\<open>int()\<close> accepts: \<open>head_long\<close>
  looks at the text behind an \<^verbatim>\<open>&\<close>, \<open>long_reference\<close> at every \<^verbatim>\<open>&\<close> of a text.
\<close>

definition head_long :: "interpreter \<Rightarrow> pystr \<Rightarrow> bool" where
  "head_long py cs \<longleftrightarrow>
     take 1 cs = [35] \<and> too_long py (length (takeWhile is_digit (drop 1 cs)))"

fun long_reference :: "interpreter \<Rightarrow> pystr \<Rightarrow> bool" where
  "long_reference py [] = False"
| "long_reference py (c # cs) =
     ((c = 38 \<and> take 1 cs = [35] \<and> too_long py (length (takeWhile is_digit (drop 1 cs)))) \<or>
      long_reference py cs)"

text \<open>The text \<^verbatim>\<open>&#9...9;\<close> with \<open>n\<close> nines.\<close>

definition long_reference_text :: "nat \<Rightarrow> pystr" where
  "long_reference_text n = str ''&#'' @ replicate n 57 @ str '';''"

text \<open>A value that is no text with an \<^verbatim>\<open>&\<close>, and a record of such values.\<close>

definition plain_value :: "pyval \<Rightarrow> bool" where
  "plain_value v = (case v of PyStr s \<Rightarrow> 38 \<notin> set s | _ \<Rightarrow> True)"

definition plain_row :: "row \<Rightarrow> bool" where
  "plain_row example \<longleftrightarrow> (\<forall>v \<in> snd ` set example. plain_value v)"


section \<open>A library to run the model on\<close>

text \<open>
  A machine without network and without data files. The world is the number of draws
  made from the random generator, which deals out 0, 1, 2, ... in turn. The split takes
  the first \<open>\<lceil>test_size * n\<rceil>\<close> rows as the test part, without shuffling.
\<close>

definition plain_split_indices :: "nat \<Rightarrow> rat \<Rightarrow> int \<Rightarrow> exn + (nat list \<times> nat list)" where
  "plain_split_indices n test_size sd =
     (let n_test = nat \<lceil>test_size * of_nat n\<rceil>
      in if test_size \<le> 0 \<or> 1 \<le> test_size then Inl (ValueError ''test_size out of range'')
         else if n \<le> n_test then Inl (ValueError ''the resulting train set will be empty'')
         else Inr ([n_test..<n], [0..<n_test]))"

definition offline_library :: "nat library" where
  "offline_library =
     \<lparr> python = default_python,
       load_dataset = (\<lambda>req w. (Inl (OtherError ''offline''), w)),
       load_split = (\<lambda>req split_name w. (Inl (OtherError ''offline''), w)),
       split_indices = plain_split_indices,
       path_exists = (\<lambda>p w. False),
       rmtree = (\<lambda>p w. (Inr (), w)),
       expanduser = (\<lambda>p. ''/home/user'' @ drop 1 p),
       randbelow = (\<lambda>n w. (w, Suc w)) \<rparr>"

text \<open>
  A machine whose dataset cache is stale: the world says whether the stale cache is
  still there. A load fails on the size check as long as it is; removing the cache
  directory clears it.
\<close>

definition stale_cache_library :: "bool library" where
  "stale_cache_library =
     \<lparr> python = default_python,
       load_dataset = (\<lambda>req stale.
          if stale then (Inl (NonMatchingSplitsSizesError ''expected and recorded sizes differ''), stale)
          else (Inr [(''train'', [[(''text'', PyStr (str ''Good idea!''))]])], stale)),
       load_split = (\<lambda>req split_name stale. (Inl (OtherError ''no such split''), stale)),
       split_indices = plain_split_indices,
       path_exists = (\<lambda>p stale. stale),
       rmtree = (\<lambda>p stale. (Inr (), False)),
       expanduser = (\<lambda>p. ''/home/user'' @ drop 1 p),
       randbelow = (\<lambda>n stale. (0, stale)) \<rparr>"

text \<open>A configuration with the given source and row cap.\<close>

definition config :: "string \<Rightarrow> int option \<Rightarrow> app_cfg" where
  "config src limit =
     \<lparr> data = \<lparr> source = src, hf_dataset = ''org/comments'', split_ratio = [8 / 10, 2 / 10],
                 fast_limit = limit, text_field = ''text'' \<rparr>,
       paths = \<lparr> data_dir = ''data'' \<rparr>,
       seed = 42 \<rparr>"


section \<open>Substitution: general facts\<close>

lemma re_sub_None: "p (c # cs) = None \<Longrightarrow> re_sub p repl (c # cs) = c # re_sub p repl cs"
  by simp

lemma re_sub_Some:
  "p (c # cs) = Some n \<Longrightarrow> 0 < n \<Longrightarrow> n \<le> Suc (length cs) \<Longrightarrow>
   re_sub p repl (c # cs) = repl (take n (c # cs)) @ re_sub p repl (drop n (c # cs))"
  by simp

declare re_sub.simps(2) [simp del]


lemma non_ascii_sub:
  "re_sub NON_ASCII (\<lambda>m. [32]) s = map (\<lambda>c. if kept_char c then c else 32) s"
  by (induction s) (simp_all add: re_sub_None re_sub_Some NON_ASCII_def)

lemma ms_space:
  "is_space c \<Longrightarrow> re_sub MULTI_SPACE (\<lambda>m. [32]) (c # cs) =
     32 # re_sub MULTI_SPACE (\<lambda>m. [32]) (dropWhile is_space cs)"
proof -
  assume c: "is_space c"
  let ?n = "Suc (length (takeWhile is_space cs))"
  have m: "MULTI_SPACE (c # cs) = Some ?n" using c by (simp add: MULTI_SPACE_def)
  have le: "?n \<le> Suc (length cs)" by (simp add: length_takeWhile_le)
  have d: "drop ?n (c # cs) = dropWhile is_space cs"
    by (simp add: dropWhile_eq_drop)
  have "re_sub MULTI_SPACE (\<lambda>m. [32]) (c # cs) =
          [32] @ re_sub MULTI_SPACE (\<lambda>m. [32]) (drop ?n (c # cs))"
    using m le by (subst re_sub_Some [where n = ?n]) simp_all
  with d show ?thesis by simp
qed

lemma ms_nonspace:
  "\<not> is_space c \<Longrightarrow> re_sub MULTI_SPACE (\<lambda>m. [32]) (c # cs) =
     c # re_sub MULTI_SPACE (\<lambda>m. [32]) cs"
  by (simp add: re_sub_None MULTI_SPACE_def)


lemma single_spaced_Cons:
  "single_spaced (a # r) \<longleftrightarrow> (r = [] \<or> (\<not> (is_space a \<and> is_space (hd r)) \<and> single_spaced r))"
  by (cases r) auto

lemma ms_hd:
  "\<not> is_space c \<Longrightarrow> re_sub MULTI_SPACE (\<lambda>m. [32]) (c # cs) \<noteq> [] \<and>
     hd (re_sub MULTI_SPACE (\<lambda>m. [32]) (c # cs)) = c"
  by (simp add: ms_nonspace)

lemma ms_after_run:
  "re_sub MULTI_SPACE (\<lambda>m. [32]) (dropWhile is_space cs) = [] \<or>
   \<not> is_space (hd (re_sub MULTI_SPACE (\<lambda>m. [32]) (dropWhile is_space cs)))"
proof (cases "dropWhile is_space cs")
  case Nil
  have "re_sub MULTI_SPACE (\<lambda>m. [32]) [] = []" by simp
  then show ?thesis unfolding Nil ..
next
  case (Cons d ds)
  have "\<not> is_space (hd (dropWhile is_space cs))"
    using Cons hd_dropWhile [of is_space cs] by simp
  then have "\<not> is_space d" unfolding Cons by simp
  then have "hd (re_sub MULTI_SPACE (\<lambda>m. [32]) (d # ds)) = d" by (simp add: ms_nonspace)
  with \<open>\<not> is_space d\<close> show ?thesis unfolding Cons by simp
qed

lemma ms_single_spaced: "single_spaced (re_sub MULTI_SPACE (\<lambda>m. [32]) s)"
proof (induction s rule: length_induct)
  case (1 s)
  show ?case
  proof (cases s)
    case Nil
    then show ?thesis by simp
  next
    case (Cons c cs)
    show ?thesis
    proof (cases "is_space c")
      case True
      let ?t = "dropWhile is_space cs"
      have "length ?t < length s"
        using Cons by (simp add: length_dropWhile_le le_imp_less_Suc)
      with 1 have ih: "single_spaced (re_sub MULTI_SPACE (\<lambda>m. [32]) ?t)" by blast
      from ms_after_run [of cs] ih show ?thesis using Cons True
        by (auto simp: ms_space single_spaced_Cons)
    next
      case False
      from 1 Cons have "single_spaced (re_sub MULTI_SPACE (\<lambda>m. [32]) cs)" by simp
      with False Cons show ?thesis by (auto simp: ms_nonspace single_spaced_Cons)
    qed
  qed
qed

lemma ms_set:
  "set (re_sub MULTI_SPACE (\<lambda>m. [32]) s) \<subseteq> insert 32 {c \<in> set s. \<not> is_space c}"
proof (induction s rule: length_induct)
  case (1 s)
  show ?case
  proof (cases s)
    case Nil
    then show ?thesis by simp
  next
    case (Cons c cs)
    show ?thesis
    proof (cases "is_space c")
      case True
      let ?t = "dropWhile is_space cs"
      have "length ?t < length s"
        using Cons by (simp add: length_dropWhile_le le_imp_less_Suc)
      with 1 have ih: "set (re_sub MULTI_SPACE (\<lambda>m. [32]) ?t)
                        \<subseteq> insert 32 {c \<in> set ?t. \<not> is_space c}" by blast
      have "set ?t \<subseteq> set cs" by (auto dest: set_dropWhileD)
      with ih show ?thesis using Cons True by (auto simp: ms_space)
    next
      case False
      from 1 Cons have "set (re_sub MULTI_SPACE (\<lambda>m. [32]) cs)
                        \<subseteq> insert 32 {c \<in> set cs. \<not> is_space c}" by simp
      with False Cons show ?thesis by (auto simp: ms_nonspace)
    qed
  qed
qed


lemma single_spaced_drop: "single_spaced r \<Longrightarrow> single_spaced (drop n r)"
proof (induction n arbitrary: r)
  case 0
  then show ?case by simp
next
  case (Suc n)
  then show ?case by (cases r) (auto simp: single_spaced_Cons)
qed

lemma single_spaced_take: "single_spaced r \<Longrightarrow> single_spaced (take n r)"
proof (induction r arbitrary: n)
  case Nil
  then show ?case by simp
next
  case (Cons a r)
  show ?case
  proof (cases n)
    case 0
    then show ?thesis by simp
  next
    case (Suc m)
    from Cons.prems have "r = [] \<or> (\<not> (is_space a \<and> is_space (hd r)) \<and> single_spaced r)"
      by (simp add: single_spaced_Cons)
    then show ?thesis
    proof
      assume "r = []"
      then show ?thesis using Suc by simp
    next
      assume h: "\<not> (is_space a \<and> is_space (hd r)) \<and> single_spaced r"
      then have "single_spaced (take m r)" using Cons.IH by simp
      moreover have "take m r \<noteq> [] \<Longrightarrow> hd (take m r) = hd r" by (cases r; cases m) auto
      ultimately show ?thesis using Suc h by (auto simp: single_spaced_Cons)
    qed
  qed
qed


lemma rev_dropWhile_rev: "rev (dropWhile P (rev u)) = take (length u - length (takeWhile P (rev u))) u"
proof -
  have "dropWhile P (rev u) = drop (length (takeWhile P (rev u))) (rev u)"
    by (rule dropWhile_eq_drop)
  then show ?thesis by (simp add: rev_drop)
qed

lemma strip_single_spaced: "single_spaced r \<Longrightarrow> single_spaced (strip r)"
proof -
  assume r: "single_spaced r"
  have "dropWhile is_space r = drop (length (takeWhile is_space r)) r"
    by (rule dropWhile_eq_drop)
  with r have "single_spaced (dropWhile is_space r)" by (simp add: single_spaced_drop)
  then show ?thesis
    unfolding strip_def rev_dropWhile_rev by (rule single_spaced_take)
qed

lemma strip_set: "set (strip r) \<subseteq> set r"
  by (auto simp: strip_def dest!: set_dropWhileD)

lemma strip_last: "strip r \<noteq> [] \<Longrightarrow> \<not> is_space (last (strip r))"
proof -
  assume ne: "strip r \<noteq> []"
  let ?u = "dropWhile is_space (rev (dropWhile is_space r))"
  from ne have "?u \<noteq> []" by (simp add: strip_def)
  then have "\<not> is_space (hd ?u)" by (rule hd_dropWhile)
  moreover have "last (strip r) = hd ?u"
    using \<open>?u \<noteq> []\<close> by (simp add: strip_def last_rev)
  ultimately show ?thesis by simp
qed

lemma strip_hd: "strip r \<noteq> [] \<Longrightarrow> \<not> is_space (hd (strip r))"
proof -
  assume ne: "strip r \<noteq> []"
  let ?u = "dropWhile is_space r"
  have st: "strip r = take (length ?u - length (takeWhile is_space (rev ?u))) ?u"
    unfolding strip_def by (rule rev_dropWhile_rev)
  from ne have u: "?u \<noteq> []" unfolding st by auto
  then have nsp: "\<not> is_space (hd ?u)" by (rule hd_dropWhile)
  from ne have "hd (strip r) = hd ?u" unfolding st by (metis hd_take take_eq_Nil not_gr_zero)
  with nsp show ?thesis by simp
qed


lemma lower_char_space: "is_space (lower_char c) \<longleftrightarrow> is_space c"
  by (auto simp: lower_char_def is_space_def is_upper_def)

lemma lower_single_spaced: "single_spaced r \<Longrightarrow> single_spaced (lower r)"
  by (induction r rule: single_spaced.induct) (simp_all add: lower_def lower_char_space)

lemma sp_str: "str '' '' = [32]"
  by (simp add: str_def)

lemma tidy_eq:
  "tidy u = lower (strip (re_sub MULTI_SPACE (\<lambda>m. [32]) (re_sub NON_ASCII (\<lambda>m. [32])
              (re_sub URL (\<lambda>m. [32]) (re_sub HTML_TAG (\<lambda>m. [32]) u)))))"
  by (simp add: tidy_def sp_str)

lemma clean_text_str:
  "clean_text py (PyStr s) = (case unescape py s of Inl e \<Rightarrow> Inl e | Inr u \<Rightarrow> Inr (tidy u))"
  by (simp add: clean_text_def isinstance_str_def tidy_def split: sum.splits)

lemma unescape_plain: "38 \<notin> set s \<Longrightarrow> unescape py s = Inr s"
  by (simp add: unescape_def)

lemma punct_codes: "set (str ''.,!?'-'') = {46, 44, 33, 63, 39, 45}"
  by (simp add: str_def)

lemma kept_lower: "kept_char c \<Longrightarrow> \<not> is_space c \<or> c = 32 \<Longrightarrow> out_char (lower_char c)"
  unfolding kept_char_def out_char_def lower_char_def punct_codes is_lower_def is_upper_def
    is_digit_def is_space_def
  by auto





lemma collapse_chars:
  "c \<in> set (re_sub MULTI_SPACE (\<lambda>m. [32]) (re_sub NON_ASCII (\<lambda>m. [32]) u)) \<Longrightarrow>
   kept_char c \<and> (\<not> is_space c \<or> c = 32) \<and> c < 128"
proof -
  assume "c \<in> set (re_sub MULTI_SPACE (\<lambda>m. [32]) (re_sub NON_ASCII (\<lambda>m. [32]) u))"
  with ms_set have "c = 32 \<or> (c \<in> set (re_sub NON_ASCII (\<lambda>m. [32]) u) \<and> \<not> is_space c)"
    by blast
  then have "c = 32 \<or> (kept_char c \<and> \<not> is_space c)"
    by (auto simp: non_ascii_sub split: if_splits)
  then show ?thesis
    unfolding kept_char_def punct_codes is_lower_def is_upper_def is_digit_def is_space_def
    by auto
qed

lemma single_spaced_nth:
  "single_spaced r \<Longrightarrow> Suc i < length r \<Longrightarrow> \<not> (is_space (r ! i) \<and> is_space (r ! Suc i))"
proof (induction r arbitrary: i rule: single_spaced.induct)
  case 1
  then show ?case by simp
next
  case (2 c)
  then show ?case by simp
next
  case (3 a b r)
  then show ?case by (cases i) auto
qed

lemma out_char_listed:
  "out_char c \<Longrightarrow> c \<in> set (str ''abcdefghijklmnopqrstuvwxyz0123456789 .,!?'-'')"
proof -
  assume "out_char c"
  then have "(97 \<le> c \<and> c \<le> 122) \<or> (48 \<le> c \<and> c \<le> 57) \<or> c = 32 \<or>
             c \<in> {46, 44, 33, 63, 39, 45}"
    unfolding out_char_def punct_codes is_lower_def is_digit_def by simp
  then show ?thesis by (simp add: str_def) arith
qed








lemma tidy_form: "clean_form (tidy u)"
proof -
  let ?t = "re_sub MULTI_SPACE (\<lambda>m. [32]) (re_sub NON_ASCII (\<lambda>m. [32])
       (re_sub URL (\<lambda>m. [32]) (re_sub HTML_TAG (\<lambda>m. [32]) u)))"
  have r: "tidy u = lower (strip ?t)" by (rule tidy_eq)
  have chars: "\<forall>c \<in> set (lower (strip ?t)). out_char c"
  proof
    fix c assume "c \<in> set (lower (strip ?t))"
    then obtain d where d: "d \<in> set (strip ?t)" and c: "c = lower_char d"
      by (auto simp: lower_def)
    from d strip_set have "d \<in> set ?t" by blast
    then have "kept_char d \<and> (\<not> is_space d \<or> d = 32)" using collapse_chars by blast
    with c show "out_char c" by (simp add: kept_lower)
  qed
  have ss: "single_spaced (lower (strip ?t))"
    by (intro lower_single_spaced strip_single_spaced ms_single_spaced)
  have ends: "lower (strip ?t) = [] \<or>
     (\<not> is_space (hd (lower (strip ?t))) \<and> \<not> is_space (last (lower (strip ?t))))"
  proof (cases "strip ?t = []")
    case True
    then show ?thesis by (simp add: lower_def)
  next
    case False
    then have "\<not> is_space (hd (strip ?t))" and "\<not> is_space (last (strip ?t))"
      by (rule strip_hd, rule strip_last)
    with False show ?thesis
      by (simp add: lower_def hd_map last_map lower_char_space)
  qed
  from chars ss ends show ?thesis unfolding r clean_form_def by blast
qed

lemma clean_text_form: "clean_text py x = Inr r \<Longrightarrow> clean_form r"
proof (cases x)
  case (PyStr s)
  assume "clean_text py x = Inr r"
  then show ?thesis unfolding PyStr clean_text_str using tidy_form
    by (auto split: sum.splits)
qed (auto simp: clean_text_def isinstance_str_def clean_form_def)





section \<open>Character references\<close>

lemma re_sub_call_None:
  "p (c # cs) = None \<Longrightarrow>
   re_sub_call p repl (c # cs) =
     (case re_sub_call p repl cs of Inl e \<Rightarrow> Inl e | Inr rest \<Rightarrow> Inr (c # rest))"
  by simp

lemma re_sub_call_Some:
  "p (c # cs) = Some n \<Longrightarrow> 0 < n \<Longrightarrow> n \<le> Suc (length cs) \<Longrightarrow>
   re_sub_call p repl (c # cs) =
     (case repl (take n (c # cs)) of
        Inl e \<Rightarrow> Inl e
      | Inr r \<Rightarrow>
          (case re_sub_call p repl (drop n (c # cs)) of
             Inl e \<Rightarrow> Inl e
           | Inr rest \<Rightarrow> Inr (r @ rest)))"
  by simp

declare re_sub_call.simps(2) [simp del]

lemma opt_semi_take:
  "take (opt_semi t) t = (if opt_semi t = 1 then [59] else [])" "opt_semi t \<le> length t"
  "opt_semi t \<le> 1"
  by (cases t; simp add: opt_semi_def)+

lemma take_run:
  "take (length (takeWhile P xs) + k) xs = takeWhile P xs @ take k (drop (length (takeWhile P xs)) xs)"
  by (metis append_eq_conv_conj take_add takeWhile_dropWhile_id)

lemma take_run_min:
  "take (min j (length (takeWhile P xs))) xs = take j (takeWhile P xs)"
  by (metis (no_types) append_eq_conv_conj min.commute take_take takeWhile_dropWhile_id)

lemma rstrip_semi_digits:
  "ds \<noteq> [] \<Longrightarrow> \<forall>c \<in> set ds. is_digit c \<Longrightarrow> t = [] \<or> t = [59] \<Longrightarrow> rstrip_semi (ds @ t) = ds"
proof -
  assume ne: "ds \<noteq> []" and dg: "\<forall>c \<in> set ds. is_digit c" and t: "t = [] \<or> t = [59]"
  from ne dg have "last ds \<noteq> 59" by (auto simp: is_digit_def dest!: last_in_set)
  with ne have "dropWhile (\<lambda>c. c = 59) (rev ds) = rev ds"
    by (cases "rev ds") (auto simp: last_rev [symmetric] hd_rev)
  with t show ?thesis by (auto simp: rstrip_semi_def)
qed

text \<open>The three ways in which the pattern of a character reference matches.\<close>

lemma charref_cases:
  assumes "charref (c # cs) = Some m"
  obtains
    (decimal) ds where "c = 38" "cs = 35 # ds" "1 \<le> length (takeWhile is_digit ds)"
      "m = 2 + length (takeWhile is_digit ds) + opt_semi (drop (length (takeWhile is_digit ds)) ds)"
  | (hex) x hs where "c = 38" "cs = 35 # x # hs" "x = 120 \<or> x = 88"
      "1 \<le> length (takeWhile is_hex hs)"
      "m = 3 + length (takeWhile is_hex hs) + opt_semi (drop (length (takeWhile is_hex hs)) hs)"
  | (named) d ds where "c = 38" "cs = d # ds" "d \<noteq> 35"
      "1 \<le> min 32 (length (takeWhile name_char cs))"
      "m = 1 + min 32 (length (takeWhile name_char cs))
             + opt_semi (drop (min 32 (length (takeWhile name_char cs))) cs)"
  using assms
  by (auto simp: charref_def Let_def split: list.splits if_splits)

lemma is_digit_not_amp: "is_digit c \<Longrightarrow> c \<noteq> 38 \<and> c \<noteq> 59 \<and> c \<noteq> 120 \<and> c \<noteq> 88"
  by (auto simp: is_digit_def)

lemma is_hex_not_amp: "is_hex c \<Longrightarrow> c \<noteq> 38"
  by (auto simp: is_hex_def is_digit_def)

lemma name_char_not_amp: "name_char c \<Longrightarrow> c \<noteq> 38"
  by (auto simp: name_char_def str_def)

lemma run_no_amp:
  assumes "\<And>c. P c \<Longrightarrow> c \<noteq> 38" and "j \<le> length (takeWhile P xs)"
  shows "38 \<notin> set (take (j + opt_semi (drop j xs)) xs)"
proof -
  have "take (j + opt_semi (drop j xs)) xs = take j xs @ take (opt_semi (drop j xs)) (drop j xs)"
    by (simp add: take_add)
  moreover have "take j xs = take j (takeWhile P xs)"
    using assms(2) take_run_min [of j P xs] by (simp add: min_absorb1)
  moreover have "38 \<notin> set (take j (takeWhile P xs))"
    using assms(1) by (auto dest!: in_set_takeD set_takeWhileD)
  moreover have "38 \<notin> set (take (opt_semi (drop j xs)) (drop j xs))"
    by (simp add: opt_semi_take)
  ultimately show ?thesis by simp
qed

lemma charref_match:
  assumes "charref (c # cs) = Some m"
  shows "c = 38 \<and> 2 \<le> m \<and> m \<le> Suc (length cs) \<and> 38 \<notin> set (take (m - 1) cs)"
  using assms
proof (cases rule: charref_cases)
  case (decimal ds)
  let ?n = "length (takeWhile is_digit ds)"
  have le: "?n + opt_semi (drop ?n ds) \<le> length ds"
    using opt_semi_take(2) [of "drop ?n ds"] length_takeWhile_le [of is_digit ds] by simp
  have "38 \<notin> set (take (?n + opt_semi (drop ?n ds)) ds)"
    by (rule run_no_amp [of is_digit]) (simp_all add: is_digit_not_amp)
  with decimal le show ?thesis by simp
next
  case (hex x hs)
  let ?n = "length (takeWhile is_hex hs)"
  have le: "?n + opt_semi (drop ?n hs) \<le> length hs"
    using opt_semi_take(2) [of "drop ?n hs"] length_takeWhile_le [of is_hex hs] by simp
  have "38 \<notin> set (take (?n + opt_semi (drop ?n hs)) hs)"
    by (rule run_no_amp [of is_hex]) (simp_all add: is_hex_not_amp)
  with hex le show ?thesis by auto
next
  case (named d ds)
  let ?k = "min 32 (length (takeWhile name_char cs))"
  have le: "?k + opt_semi (drop ?k cs) \<le> length cs"
    using opt_semi_take(2) [of "drop ?k cs"] length_takeWhile_le [of name_char cs] by simp
  have "38 \<notin> set (take (?k + opt_semi (drop ?k cs)) cs)"
    by (rule run_no_amp [of name_char]) (simp_all add: name_char_not_amp)
  with named le show ?thesis by simp
qed

text \<open>When the replacement of a match raises.\<close>

lemma replace_decimal:
  assumes "1 \<le> length (takeWhile is_digit ds)" and "t = [] \<or> t = [59]"
  shows "replace_charref py (35 # takeWhile is_digit ds @ t) =
     (if too_long py (length (takeWhile is_digit ds))
      then Inl (int_limit_error (int_max_str_digits py) (length (takeWhile is_digit ds)))
      else Inr (case invalid_charrefs (int_of_digits 10 (takeWhile is_digit ds)) of
                  Some r \<Rightarrow> r
                | None \<Rightarrow>
                    if (0xD800 \<le> int_of_digits 10 (takeWhile is_digit ds)
                          \<and> int_of_digits 10 (takeWhile is_digit ds) \<le> 0xDFFF)
                        \<or> int_of_digits 10 (takeWhile is_digit ds) > 0x10FFFF then [0xFFFD]
                    else if invalid_codepoints (int_of_digits 10 (takeWhile is_digit ds)) then []
                    else [int_of_digits 10 (takeWhile is_digit ds)]))"
proof -
  let ?d = "takeWhile is_digit ds"
  from assms(1) have ne: "?d \<noteq> []" by auto
  then obtain x xs where d: "?d = x # xs" by (cases ?d) auto
  have "x \<in> set ?d" using d by simp
  then have "is_digit x" by (auto dest: set_takeWhileD)
  then have x: "x \<noteq> 120" "x \<noteq> 88" by (simp_all add: is_digit_not_amp)
  have all: "\<forall>c \<in> set ?d. is_digit c" by (auto dest: set_takeWhileD)
  have r: "rstrip_semi (?d @ t) = ?d" using ne all assms(2) by (rule rstrip_semi_digits)
  have h: "take 1 (?d @ t) \<noteq> [120]" "take 1 (?d @ t) \<noteq> [88]" using d x by simp_all
  show ?thesis
    unfolding replace_charref_def py_int_def using h r by simp
qed

lemma replace_match:
  assumes "charref (c # cs) = Some m"
  shows "replace_charref py (take (m - 1) cs) =
           Inl e \<longleftrightarrow> head_long py cs \<and>
             e = int_limit_error (int_max_str_digits py) (length (takeWhile is_digit (drop 1 cs)))"
  using assms
proof (cases rule: charref_cases)
  case (decimal ds)
  let ?n = "length (takeWhile is_digit ds)"
  let ?t = "take (opt_semi (drop ?n ds)) (drop ?n ds)"
  have g: "take (m - 1) cs = 35 # takeWhile is_digit ds @ ?t"
    using decimal take_run [of is_digit ds "opt_semi (drop ?n ds)"] by simp
  have t: "?t = [] \<or> ?t = [59]" by (simp add: opt_semi_take)
  show ?thesis
    unfolding g replace_decimal [OF decimal(3) t] using decimal
    by (auto simp: head_long_def)
next
  case (hex x hs)
  have "take (m - 1) cs = 35 # x # take (m - 3) hs" using hex by simp
  then have "\<exists>v. replace_charref py (take (m - 1) cs) = Inr v"
    using hex by (auto simp: replace_charref_def)
  moreover have "\<not> head_long py cs"
    using hex by (auto simp: head_long_def too_long_def is_digit_def)
  ultimately show ?thesis by auto
next
  case (named d ds)
  have "take 1 (take (m - 1) cs) \<noteq> [35]" using named by simp
  then have "\<exists>v. replace_charref py (take (m - 1) cs) = Inr v"
    by (simp add: replace_charref_def)
  moreover have "\<not> head_long py cs" using named by (simp add: head_long_def)
  ultimately show ?thesis by auto
qed

lemma charref_None_head: "charref (c # cs) = None \<Longrightarrow> \<not> (c = 38 \<and> head_long py cs)"
  by (auto simp: charref_def head_long_def too_long_def Let_def split: list.splits)

lemma long_reference_Cons:
  "long_reference py (c # cs) \<longleftrightarrow> (c = 38 \<and> head_long py cs) \<or> long_reference py cs"
  by (simp add: head_long_def)

lemma long_reference_skip:
  "38 \<notin> set (take k t) \<Longrightarrow> long_reference py t = long_reference py (drop k t)"
proof (induction k arbitrary: t)
  case 0
  then show ?case by simp
next
  case (Suc k)
  then show ?case by (cases t) auto
qed

lemma charref_sub_result:
  "(long_reference py s \<longrightarrow>
      (\<exists>n. too_long py n \<and> re_sub_call charref (\<lambda>m. replace_charref py (drop 1 m)) s
              = Inl (int_limit_error (int_max_str_digits py) n))) \<and>
   (\<not> long_reference py s \<longrightarrow>
      (\<exists>u. re_sub_call charref (\<lambda>m. replace_charref py (drop 1 m)) s = Inr u))"
proof (induction s rule: length_induct)
  case (1 s)
  let ?sub = "re_sub_call charref (\<lambda>m. replace_charref py (drop 1 m))"
  let ?P = "\<lambda>s. (long_reference py s \<longrightarrow>
      (\<exists>n. too_long py n \<and> ?sub s = Inl (int_limit_error (int_max_str_digits py) n))) \<and>
   (\<not> long_reference py s \<longrightarrow> (\<exists>u. ?sub s = Inr u))"
  show ?case
  proof (cases s)
    case Nil
    then show ?thesis by simp
  next
    case (Cons c cs)
    from 1 Cons have ih: "\<And>t. length t \<le> length cs \<Longrightarrow> ?P t" by simp
    show ?thesis
    proof (cases "charref (c # cs)")
      case None
      then have h: "\<not> (c = 38 \<and> head_long py cs)" by (rule charref_None_head)
      have s: "?sub (c # cs) = (case ?sub cs of Inl e \<Rightarrow> Inl e | Inr rest \<Rightarrow> Inr (c # rest))"
        using None by (rule re_sub_call_None)
      have l: "long_reference py (c # cs) = long_reference py cs"
        using h by (auto simp: head_long_def)
      from ih [of cs] show ?thesis unfolding Cons s l by (auto split: sum.splits)
    next
      case (Some m)
      then have m: "c = 38" "2 \<le> m" "m \<le> Suc (length cs)" "38 \<notin> set (take (m - 1) cs)"
        using charref_match by blast+
      have g: "drop 1 (take m (c # cs)) = take (m - 1) cs" using m(2) by (cases m) simp_all
      have d: "drop m (c # cs) = drop (m - 1) cs" using m(2) by (cases m) simp_all
      have "0 < m" using m(2) by simp
      from re_sub_call_Some [of charref c cs m "\<lambda>m. replace_charref py (drop 1 m)", OF Some this m(3)]
      have s: "?sub (c # cs) =
         (case replace_charref py (take (m - 1) cs) of
            Inl e \<Rightarrow> Inl e
          | Inr r \<Rightarrow> (case ?sub (drop (m - 1) cs) of Inl e \<Rightarrow> Inl e | Inr rest \<Rightarrow> Inr (r @ rest)))"
        unfolding g d .
      show ?thesis
      proof (cases "head_long py cs")
        case True
        then have "replace_charref py (take (m - 1) cs) =
           Inl (int_limit_error (int_max_str_digits py) (length (takeWhile is_digit (drop 1 cs))))"
          using replace_match [OF Some] by blast
        moreover from True have "too_long py (length (takeWhile is_digit (drop 1 cs)))"
          by (simp add: head_long_def)
        moreover have "long_reference py (c # cs)" using True m(1) by (auto simp: head_long_def)
        ultimately show ?thesis unfolding Cons s by auto
      next
        case False
        then have "\<And>e. replace_charref py (take (m - 1) cs) \<noteq> Inl e"
          using replace_match [OF Some] by blast
        then obtain r where r: "replace_charref py (take (m - 1) cs) = Inr r"
          by (cases "replace_charref py (take (m - 1) cs)") auto
        have l: "long_reference py (c # cs) = long_reference py (drop (m - 1) cs)"
          using False long_reference_skip [OF m(4), of py] by (auto simp: head_long_def)
        have "length (drop (m - 1) cs) \<le> length cs" by simp
        from ih [OF this] show ?thesis unfolding Cons s l r by (auto split: sum.splits)
      qed
    qed
  qed
qed

lemma long_reference_amp: "long_reference py s \<Longrightarrow> 38 \<in> set s"
  by (induction s) auto

lemma unescape_raises:
  "long_reference py s \<Longrightarrow>
   \<exists>n. too_long py n \<and> unescape py s = Inl (int_limit_error (int_max_str_digits py) n)"
  using charref_sub_result [of py s] long_reference_amp [of py s] by (simp add: unescape_def)

lemma unescape_returns: "\<not> long_reference py s \<Longrightarrow> \<exists>u. unescape py s = Inr u"
  using charref_sub_result [of py s] by (simp add: unescape_def)

lemma clean_text_raises:
  "long_reference py s \<Longrightarrow>
   \<exists>n. too_long py n \<and> clean_text py (PyStr s) = Inl (int_limit_error (int_max_str_digits py) n)"
  using unescape_raises [of py s] by (auto simp: clean_text_str)

lemma clean_text_returns:
  "\<not> long_reference py s \<Longrightarrow> \<exists>r. clean_text py (PyStr s) = Inr r \<and> clean_form r"
  using unescape_returns [of py s] tidy_form by (auto simp: clean_text_str)

lemma no_limit: "int_max_str_digits py = 0 \<Longrightarrow> \<not> long_reference py s"
  by (induction s) (auto simp: too_long_def)

text \<open>A reference of \<open>n\<close> nines.\<close>

lemma takeWhile_replicate_append:
  "P x \<Longrightarrow> \<not> P y \<Longrightarrow> takeWhile P (replicate n x @ y # ys) = replicate n x"
  by (induction n) simp_all

lemma long_reference_text_long:
  "too_long py n \<Longrightarrow> long_reference py (long_reference_text n)"
proof -
  assume "too_long py n"
  moreover have "takeWhile is_digit (replicate n 57 @ [59]) = replicate n 57"
    by (rule takeWhile_replicate_append) (simp_all add: is_digit_def)
  ultimately show ?thesis by (simp add: long_reference_text_def str_def)
qed

text \<open>A reference of \<open>n\<close> digits raises when \<open>n\<close> is over the limit.\<close>

lemma long_reference_text_raises:
  assumes "too_long py n"
  shows "clean_text py (PyStr (long_reference_text n))
           = Inl (int_limit_error (int_max_str_digits py) n)"
proof -
  let ?cs = "35 # replicate n 57 @ [59]"
  have t: "long_reference_text n = 38 # ?cs" by (simp add: long_reference_text_def str_def)
  have run: "takeWhile is_digit (replicate n 57 @ [59]) = replicate n 57"
    by (rule takeWhile_replicate_append) (simp_all add: is_digit_def)
  then have h: "head_long py ?cs" using assms by (simp add: head_long_def)
  then obtain m where m: "charref (38 # ?cs) = Some m"
    using charref_None_head [of 38 ?cs py] by (cases "charref (38 # ?cs)") auto
  then have b: "0 < m" "m \<le> Suc (length ?cs)" using charref_match [OF m] by simp_all
  have g: "drop 1 (take m (38 # ?cs)) = take (m - 1) ?cs" using b(1) by (cases m) simp_all
  from replace_match [OF m, of py] h run
  have r: "replace_charref py (take (m - 1) ?cs) = Inl (int_limit_error (int_max_str_digits py) n)"
    by simp
  from re_sub_call_Some [of charref 38 ?cs m "\<lambda>m. replace_charref py (drop 1 m)", OF m b]
  have "re_sub_call charref (\<lambda>m. replace_charref py (drop 1 m)) (38 # ?cs)
          = Inl (int_limit_error (int_max_str_digits py) n)"
    unfolding g r by simp
  then show ?thesis by (simp add: clean_text_str unescape_def t)
qed

text \<open>Rules for evaluating the model on a given text.\<close>

lemmas eval_defs = unescape_def str_def charref_def replace_charref_def tidy_def
    HTML_TAG_def URL_def NON_ASCII_def MULTI_SPACE_def strip_def lower_def lower_char_def is_space_def is_upper_def
    is_lower_def is_digit_def kept_char_def name_char_def opt_semi_def Let_def re_sub_None re_sub_Some
    re_sub_call_None re_sub_call_Some


section \<open>The normaliser\<close>

text \<open>
  Claim C10. For every text on which \<open>clean_text\<close> returns, the result holds only
  lowercase letters, digits, the space and the characters \<^verbatim>\<open>. , ! ? ' -\<close>; it neither
  starts nor ends with whitespace, and no two whitespace characters follow each other.
  This holds whatever the table of named references and the limit of \<^verbatim>\<open>int()\<close> are.
\<close>

theorem clean_text_output_form:
  "clean_text py (PyStr s) = Inr r \<Longrightarrow>
   set r \<subseteq> set (str ''abcdefghijklmnopqrstuvwxyz0123456789 .,!?'-'') \<and>
   (r \<noteq> [] \<longrightarrow> \<not> is_space (hd r) \<and> \<not> is_space (last r)) \<and>
   (\<forall>i. Suc i < length r \<longrightarrow> \<not> (is_space (r ! i) \<and> is_space (r ! Suc i)))"
proof -
  assume "clean_text py (PyStr s) = Inr r"
  then have f: "clean_form r" by (rule clean_text_form)
  then have "set r \<subseteq> set (str ''abcdefghijklmnopqrstuvwxyz0123456789 .,!?'-'')"
    unfolding clean_form_def using out_char_listed by blast
  moreover from f have "r \<noteq> [] \<longrightarrow> \<not> is_space (hd r) \<and> \<not> is_space (last r)"
    unfolding clean_form_def by blast
  moreover from f have "\<forall>i. Suc i < length r \<longrightarrow> \<not> (is_space (r ! i) \<and> is_space (r ! Suc i))"
    unfolding clean_form_def using single_spaced_nth by blast
  ultimately show ?thesis by blast
qed

lemma ex_tab: "clean_text py (PyStr (str ''  A  B '')) = Inr (str ''a b'')"
  by (simp add: clean_text_str eval_defs)

theorem clean_text_output_form_witness:
  "clean_text default_python (PyStr (str ''  A  B '')) = Inr (str ''a b'') \<and>
   str ''a b'' \<noteq> [] \<and> \<not> is_space (hd (str ''a b'')) \<and> \<not> is_space (last (str ''a b'')) \<and>
   Suc 1 < length (str ''a b'') \<and>
   \<not> (is_space (str ''a b'' ! 1) \<and> is_space (str ''a b'' ! Suc 1))"
proof -
  have ne: "str ''a b'' \<noteq> []" and len: "Suc 1 < length (str ''a b'')" by (simp_all add: str_def)
  from ne len ex_tab [of default_python] clean_text_output_form [OF ex_tab [of default_python]] show ?thesis by blast
qed


text \<open>
  Claim C3, as stated: \<open>clean_text\<close> returns for every value. On the text \<^verbatim>\<open>&#\<close>, 4301
  nines, \<^verbatim>\<open>;\<close> the call \<^verbatim>\<open>int()\<close> inside \<^verbatim>\<open>html.unescape\<close> raises \<^verbatim>\<open>ValueError\<close> under
  the default limit of 4300 digits, and \<open>clean_text\<close>, which has no handler, raises it.
\<close>

lemma ex_long: "too_long default_python 4301"
  by (simp add: too_long_def default_python_def)

theorem clean_text_raises_on_long_reference:
  "clean_text default_python (PyStr (long_reference_text 4301)) = Inl (int_limit_error 4300 4301)"
  using long_reference_text_raises [OF ex_long] by (simp add: default_python_def)


text \<open>
  Claim C3, amended. A value that is not a \<^verbatim>\<open>str\<close> (\<^verbatim>\<open>None\<close> included) gives the empty
  text. A text gives a text in cleaned form, unless it holds a decimal character
  reference \<^verbatim>\<open>&#\<close> with more digits than \<^verbatim>\<open>int()\<close> accepts: on such a text, and on no
  other, \<open>clean_text\<close> raises the \<^verbatim>\<open>ValueError\<close> of \<^verbatim>\<open>int()\<close>. With the limit switched
  off (0) it returns on every value.
\<close>

theorem clean_text_result:
  "(\<not> isinstance_str x \<longrightarrow> clean_text py x = Inr []) \<and>
   (isinstance_str x \<and> \<not> long_reference py (str_value x) \<longrightarrow>
      (\<exists>r. clean_text py x = Inr r \<and> clean_form r)) \<and>
   (isinstance_str x \<and> long_reference py (str_value x) \<longrightarrow>
      (\<exists>n. too_long py n \<and> clean_text py x = Inl (int_limit_error (int_max_str_digits py) n))) \<and>
   (int_max_str_digits py = 0 \<longrightarrow> (\<exists>r. clean_text py x = Inr r \<and> clean_form r))"
proof (cases x)
  case (PyStr s)
  then show ?thesis
    using clean_text_returns [of py s] clean_text_raises [of py s] no_limit [of py s]
    by (auto simp: isinstance_str_def)
qed (simp_all add: clean_text_def isinstance_str_def clean_form_def)

lemma ex_short: "\<not> long_reference default_python (str ''Good &amp; fair'')"
  by (simp add: str_def)

theorem clean_text_result_witness:
  "\<not> isinstance_str PyNone \<and> clean_text default_python PyNone = Inr [] \<and>
   isinstance_str (PyStr (str ''Good &amp; fair'')) \<and>
   \<not> long_reference default_python (str_value (PyStr (str ''Good &amp; fair''))) \<and>
   (\<exists>r. clean_text default_python (PyStr (str ''Good &amp; fair'')) = Inr r \<and> clean_form r) \<and>
   isinstance_str (PyStr (long_reference_text 4301)) \<and>
   long_reference default_python (str_value (PyStr (long_reference_text 4301))) \<and>
   (\<exists>n. too_long default_python n \<and>
        clean_text default_python (PyStr (long_reference_text 4301))
          = Inl (int_limit_error (int_max_str_digits default_python) n)) \<and>
   int_max_str_digits unlimited_python = 0 \<and>
   (\<exists>r. clean_text unlimited_python (PyStr (long_reference_text 4301)) = Inr r \<and> clean_form r)"
proof -
  have a: "\<not> isinstance_str PyNone" "isinstance_str (PyStr (str ''Good &amp; fair''))"
    "isinstance_str (PyStr (long_reference_text 4301))"
    by (simp_all add: isinstance_str_def)
  have b: "\<not> long_reference default_python (str_value (PyStr (str ''Good &amp; fair'')))"
    using ex_short by simp
  have c: "long_reference default_python (str_value (PyStr (long_reference_text 4301)))"
    using long_reference_text_long [OF ex_long] by simp
  have d: "int_max_str_digits unlimited_python = 0" by (simp add: unlimited_python_def)
  from a b c d
    clean_text_result [of PyNone default_python]
    clean_text_result [of "PyStr (str ''Good &amp; fair'')" default_python]
    clean_text_result [of "PyStr (long_reference_text 4301)" default_python]
    clean_text_result [of "PyStr (long_reference_text 4301)" unlimited_python]
  show ?thesis by blast
qed










text \<open>
  Claim C2, as stated: the example of the specification returns \<^verbatim>\<open>visit save!\<close>. The
  pattern does not match the uppercase \<^verbatim>\<open>HTTP\<close>, so the address is not removed.
\<close>

lemma ex_visit:
  "html5 py (str ''amp;'') = Some (str ''&'') \<Longrightarrow>
   clean_text py (PyStr (str ''Visit <b>HTTP://Example.com</b> &amp; save!''))
     = Inr (str ''visit http example.com save!'')"
  by (simp add: clean_text_str eval_defs)

lemma default_amp: "html5 default_python (str ''amp;'') = Some (str ''&'')"
  by (simp add: default_python_def html5_basic_def str_def)

theorem clean_text_visit_not_save:
  "clean_text default_python (PyStr (str ''Visit <b>HTTP://Example.com</b> &amp; save!''))
     \<noteq> Inr (str ''visit save!'')"
  by (simp only: ex_visit [OF default_amp]) (simp add: str_def)


text \<open>
  Claim C2, amended: on \<^verbatim>\<open>Visit <b>HTTP://Example.com</b> &amp; save!\<close> the result is
  \<^verbatim>\<open>visit http example.com save!\<close>: tags removed, the entity decoded and its \<^verbatim>\<open>&\<close>
  dropped, \<^verbatim>\<open>:\<close> and \<^verbatim>\<open>/\<close> replaced by spaces, \<^verbatim>\<open>!\<close> kept, all lowercased; for every
  interpreter whose table decodes \<^verbatim>\<open>&amp;\<close>.
\<close>

theorem clean_text_visit_example:
  "html5 py (str ''amp;'') = Some (str ''&'') \<Longrightarrow>
   clean_text py (PyStr (str ''Visit <b>HTTP://Example.com</b> &amp; save!''))
     = Inr (str ''visit http example.com save!'')"
  by (simp add: clean_text_str eval_defs)

theorem clean_text_visit_example_witness:
  "html5 default_python (str ''amp;'') = Some (str ''&'') \<and>
   clean_text default_python (PyStr (str ''Visit <b>HTTP://Example.com</b> &amp; save!''))
     = Inr (str ''visit http example.com save!'')"
  using default_amp clean_text_visit_example [of default_python] by blast


section \<open>The row cap and the normalisation pass\<close>

lemma select_in_range:
  "\<forall>i \<in> set indices. i < length d \<Longrightarrow> select d indices = Inr (map (\<lambda>i. d ! i) indices)"
  by (simp add: select_def)

lemma map_nth_upt: "m \<le> length d \<Longrightarrow> map (\<lambda>i. d ! i) [0..<m] = take m d"
  by (rule nth_equalityI) simp_all

lemma select_range: "n < int (length d) \<Longrightarrow> select d (py_range n) = Inr (take (nat n) d)"
proof -
  assume "n < int (length d)"
  then have le: "nat n \<le> length d" by linarith
  then have "\<forall>i \<in> set (py_range n). i < length d" by (auto simp: py_range_def)
  then have "select d (py_range n) = Inr (map (\<lambda>i. d ! i) [0..<nat n])"
    unfolding py_range_def by (rule select_in_range)
  with le show ?thesis by (simp add: map_nth_upt)
qed

lemma limit_splits_cut:
  "limit_splits n ds = Inr (map (\<lambda>(split_name, d). (split_name, cut n d)) ds)"
proof (induction ds)
  case Nil
  then show ?case by simp
next
  case (Cons kd ds)
  obtain k d where kd: "kd = (k, d)" by (cases kd)
  show ?case using Cons.IH unfolding kd by (simp add: cut_def select_range)
qed

lemma cut_map: "cut n (map f d) = map f (cut n d)"
  by (simp add: cut_def take_map)

lemma cut_length: "length (cut n d) = min (length d) (nat n)"
  by (auto simp: cut_def)

text \<open>
  Claim C7. Under a row cap \<open>n\<close>, a split with more than \<open>n\<close> records keeps exactly its
  first \<open>n\<close> records, in their order, and a split with at most \<open>n\<close> records is left
  as it is; every split is cut on its own, and the cut never fails. (For \<open>n \<le> 0\<close>
  \<^verbatim>\<open>range(n)\<close> is empty, and so are the first \<open>nat n\<close> records.)
\<close>

theorem fast_limit_first_rows:
  "apply_fast_limit (Some n) ds =
     Inr (map (\<lambda>(split_name, d).
            (split_name, if int (length d) > n then take (nat n) d else d)) ds)"
  by (simp add: apply_fast_limit_def limit_splits_cut cut_def)

theorem fast_limit_first_rows_witness:
  "int (length [[(''id'', PyInt 0)], [(''id'', PyInt 1)], [(''id'', PyInt 2)]]) > 2 \<and>
   \<not> int (length [[(''id'', PyInt 3)]]) > 2 \<and>
   apply_fast_limit (Some 2)
       [(''train'', [[(''id'', PyInt 0)], [(''id'', PyInt 1)], [(''id'', PyInt 2)]]),
        (''test'', [[(''id'', PyInt 3)]])]
     = Inr [(''train'', [[(''id'', PyInt 0)], [(''id'', PyInt 1)]]),
            (''test'', [[(''id'', PyInt 3)]])]"
  using fast_limit_first_rows [of 2
      "[(''train'', [[(''id'', PyInt 0)], [(''id'', PyInt 1)], [(''id'', PyInt 2)]]),
        (''test'', [[(''id'', PyInt 3)]])]"]
  by (simp add: numeral_2_eq_2)



lemma map_result_length: "map_result f xs = Inr ys \<Longrightarrow> length ys = length xs"
  by (induction xs arbitrary: ys) (auto split: sum.splits)












section \<open>Resolution of the source\<close>

text \<open>
  Claim C9. A source name other than \<^verbatim>\<open>hf_remote\<close>, \<^verbatim>\<open>local_json\<close>, \<^verbatim>\<open>local_parquet\<close>,
  \<^verbatim>\<open>csv\<close> and \<^verbatim>\<open>synthetic\<close> makes \<open>load_dataset_any\<close> raise \<^verbatim>\<open>ValueError\<close> at once:
  the world is as before the call, nothing was loaded and no dataset was made up.
\<close>

theorem unknown_source_is_fatal:
  "source (data app_cfg) \<notin> {''hf_remote'', ''local_json'', ''local_parquet'', ''csv'', ''synthetic''}
   \<Longrightarrow> load_dataset_any L app_cfg w
         = (Inl (ValueError (''Unknown data source: '' @ source (data app_cfg))), w)"
  by (simp add: load_dataset_any_def resolve_source_def)

theorem unknown_source_is_fatal_witness:
  "source (data (config ''ftp'' None))
      \<notin> {''hf_remote'', ''local_json'', ''local_parquet'', ''csv'', ''synthetic''} \<and>
   load_dataset_any offline_library (config ''ftp'' None) 0
      = (Inl (ValueError ''Unknown data source: ftp''), 0)"
proof -
  have h: "source (data (config ''ftp'' None))
      \<notin> {''hf_remote'', ''local_json'', ''local_parquet'', ''csv'', ''synthetic''}"
    by (simp add: config_def)
  from unknown_source_is_fatal [OF h, of offline_library 0] h show ?thesis
    by (simp add: config_def)
qed

lemma fallback_first_success:
  "load_dataset_with_fallback L app_cfg w =
     first_success [plain_load L app_cfg, fresh_fetch L app_cfg, skip_verification L app_cfg,
                    splits_individually L app_cfg]
       (RuntimeError (''All strategies failed to load dataset: '' @ hf_dataset (data app_cfg))) w"
  by (simp add: load_dataset_with_fallback_def plain_load_def fresh_fetch_def
        skip_verification_def splits_individually_def split_policy_def all_failed_def
        split: prod.splits sum.splits)

lemma remote_source_resolution:
  "source (data app_cfg) = ''hf_remote'' \<Longrightarrow>
   load_dataset_any L app_cfg w =
     (case load_dataset_with_fallback L app_cfg w of
        (Inr ds, w') \<Rightarrow> (finish L app_cfg ds, w')
      | (Inl e, w') \<Rightarrow>
          (case create_synthetic_dataset L 1000 w' of
             (Inr synthetic, w'') \<Rightarrow> (finish L app_cfg synthetic, w'')
           | (Inl e', w'') \<Rightarrow> (Inl e', w'')))"
  by (simp add: load_dataset_any_def resolve_source_def assigned_def
        split: prod.splits sum.splits)

lemma first_success_error: "fst (first_success attempts fatal w) = Inl e \<Longrightarrow> e = fatal"
  by (induction attempts arbitrary: w) (auto split: prod.splits sum.splits)

text \<open>
  Claim C4. \<open>load_dataset_with_fallback\<close> is the first success among the four attempts
  in their order, each run in the world the failed ones before it left; when it fails,
  the error is the \<^verbatim>\<open>RuntimeError\<close> that names the dataset, and no dataset is made up
  in its place. The synthetic dataset comes from the caller: on the source
  \<^verbatim>\<open>hf_remote\<close>, \<open>load_dataset_any\<close> finishes the loaded dataset when the resolution
  succeeds and the synthetic one when it fails.
\<close>

theorem remote_resolution_order:
  "load_dataset_with_fallback L app_cfg w =
     first_success [plain_load L app_cfg, fresh_fetch L app_cfg, skip_verification L app_cfg,
                    splits_individually L app_cfg]
       (RuntimeError (''All strategies failed to load dataset: '' @ hf_dataset (data app_cfg))) w \<and>
   (\<forall>e. fst (load_dataset_with_fallback L app_cfg w) = Inl e \<longrightarrow>
      e = RuntimeError (''All strategies failed to load dataset: '' @ hf_dataset (data app_cfg))) \<and>
   (source (data app_cfg) = ''hf_remote'' \<longrightarrow>
    load_dataset_any L app_cfg w =
     (case load_dataset_with_fallback L app_cfg w of
        (Inr ds, w') \<Rightarrow> (finish L app_cfg ds, w')
      | (Inl e, w') \<Rightarrow>
          (case create_synthetic_dataset L 1000 w' of
             (Inr synthetic, w'') \<Rightarrow> (finish L app_cfg synthetic, w'')
           | (Inl e', w'') \<Rightarrow> (Inl e', w''))))"
proof (intro conjI impI allI)
  show "load_dataset_with_fallback L app_cfg w =
     first_success [plain_load L app_cfg, fresh_fetch L app_cfg, skip_verification L app_cfg,
                    splits_individually L app_cfg]
       (RuntimeError (''All strategies failed to load dataset: '' @ hf_dataset (data app_cfg))) w"
    by (rule fallback_first_success)
next
  fix e assume "fst (load_dataset_with_fallback L app_cfg w) = Inl e"
  then show "e = RuntimeError (''All strategies failed to load dataset: '' @ hf_dataset (data app_cfg))"
    unfolding fallback_first_success by (rule first_success_error)
next
  assume "source (data app_cfg) = ''hf_remote''"
  then show "load_dataset_any L app_cfg w =
     (case load_dataset_with_fallback L app_cfg w of
        (Inr ds, w') \<Rightarrow> (finish L app_cfg ds, w')
      | (Inl e, w') \<Rightarrow>
          (case create_synthetic_dataset L 1000 w' of
             (Inr synthetic, w'') \<Rightarrow> (finish L app_cfg synthetic, w'')
           | (Inl e', w'') \<Rightarrow> (Inl e', w'')))"
    by (rule remote_source_resolution)
qed

lemma offline_attempts:
  "plain_load offline_library app_cfg w = (Inl (OtherError ''offline''), w)"
  "fresh_fetch offline_library app_cfg w = (Inl (OtherError ''offline''), w)"
  "skip_verification offline_library app_cfg w = (Inl (OtherError ''offline''), w)"
  "splits_individually offline_library app_cfg w = (Inl (OtherError ''offline''), w)"
  by (simp_all add: plain_load_def fresh_fetch_def skip_verification_def splits_individually_def
        offline_library_def clear_dataset_cache_def)

lemma stale_attempts:
  "plain_load stale_cache_library app_cfg True
     = (Inl (NonMatchingSplitsSizesError ''expected and recorded sizes differ''), True)"
  "fresh_fetch stale_cache_library app_cfg True
     = (Inr [(''train'', [[(''text'', PyStr (str ''Good idea!''))]])], False)"
  by (simp_all add: plain_load_def fresh_fetch_def stale_cache_library_def clear_dataset_cache_def)

theorem remote_resolution_order_witness:
  "fst (load_dataset_with_fallback offline_library (config ''hf_remote'' None) 0)
     = Inl (RuntimeError ''All strategies failed to load dataset: org/comments'') \<and>
   source (data (config ''hf_remote'' None)) = ''hf_remote'' \<and>
   load_dataset_any offline_library (config ''hf_remote'' None) 0
     = (case create_synthetic_dataset offline_library 1000 0 of
          (Inr synthetic, w'') \<Rightarrow> (finish offline_library (config ''hf_remote'' None) synthetic, w'')
        | (Inl e', w'') \<Rightarrow> (Inl e', w'')) \<and>
   load_dataset_with_fallback stale_cache_library (config ''hf_remote'' None) True
     = (Inr [(''train'', [[(''text'', PyStr (str ''Good idea!''))]])], False)"
proof -
  have s: "source (data (config ''hf_remote'' None)) = ''hf_remote''"
    and n: "hf_dataset (data (config ''hf_remote'' None)) = ''org/comments''"
    by (simp_all add: config_def)
  note t = remote_resolution_order [of offline_library "config ''hf_remote'' None" 0]
  from t have "load_dataset_with_fallback offline_library (config ''hf_remote'' None) 0 =
     first_success [plain_load offline_library (config ''hf_remote'' None),
                    fresh_fetch offline_library (config ''hf_remote'' None),
                    skip_verification offline_library (config ''hf_remote'' None),
                    splits_individually offline_library (config ''hf_remote'' None)]
       (RuntimeError (''All strategies failed to load dataset: ''
          @ hf_dataset (data (config ''hf_remote'' None)))) 0"
    by (rule conjunct1)
  then have f: "load_dataset_with_fallback offline_library (config ''hf_remote'' None) 0 =
      (Inl (RuntimeError ''All strategies failed to load dataset: org/comments''), 0)"
    by (simp only: first_success.simps offline_attempts prod.case sum.case n append.simps)
  from t s have "load_dataset_any offline_library (config ''hf_remote'' None) 0 =
     (case load_dataset_with_fallback offline_library (config ''hf_remote'' None) 0 of
        (Inr ds, w') \<Rightarrow> (finish offline_library (config ''hf_remote'' None) ds, w')
      | (Inl e, w') \<Rightarrow>
          (case create_synthetic_dataset offline_library 1000 w' of
             (Inr synthetic, w'') \<Rightarrow> (finish offline_library (config ''hf_remote'' None) synthetic, w'')
           | (Inl e', w'') \<Rightarrow> (Inl e', w'')))"
    by (elim conjE) (erule mp)
  then have a: "load_dataset_any offline_library (config ''hf_remote'' None) 0
     = (case create_synthetic_dataset offline_library 1000 0 of
          (Inr synthetic, w'') \<Rightarrow> (finish offline_library (config ''hf_remote'' None) synthetic, w'')
        | (Inl e', w'') \<Rightarrow> (Inl e', w''))"
    by (simp only: f prod.case sum.case)
  from remote_resolution_order [of stale_cache_library "config ''hf_remote'' None" True]
  have "load_dataset_with_fallback stale_cache_library (config ''hf_remote'' None) True =
     first_success [plain_load stale_cache_library (config ''hf_remote'' None),
                    fresh_fetch stale_cache_library (config ''hf_remote'' None),
                    skip_verification stale_cache_library (config ''hf_remote'' None),
                    splits_individually stale_cache_library (config ''hf_remote'' None)]
       (RuntimeError (''All strategies failed to load dataset: ''
          @ hf_dataset (data (config ''hf_remote'' None)))) True"
    by (rule conjunct1)
  then have g: "load_dataset_with_fallback stale_cache_library (config ''hf_remote'' None) True
     = (Inr [(''train'', [[(''text'', PyStr (str ''Good idea!''))]])], False)"
    by (simp only: first_success.simps stale_attempts prod.case sum.case)
  from s f a g show ?thesis by (simp only: fst_conv simp_thms)
qed


section \<open>The synthetic dataset\<close>

lemma generate_length: "length (fst (generate L i k w)) = k"
proof (induction k arbitrary: i w)
  case 0
  show ?case by simp
next
  case (Suc k)
  obtain sentiment w1 where
    s: "choice L [str ''positive'', str ''negative'', str ''neutral''] w = (sentiment, w1)"
    by (cases "choice L [str ''positive'', str ''negative'', str ''neutral''] w")
  obtain tx w2 where
    t: "(if sentiment = str ''positive'' then choice L positive_texts w1
         else if sentiment = str ''negative'' then choice L negative_texts w1
         else choice L neutral_texts w1) = (tx, w2)"
    by (cases "if sentiment = str ''positive'' then choice L positive_texts w1
         else if sentiment = str ''negative'' then choice L negative_texts w1
         else choice L neutral_texts w1")
  obtain rest w3 where r: "generate L (i + 1) k w2 = (rest, w3)"
    by (cases "generate L (i + 1) k w2")
  from Suc.IH [of "i + 1" w2] r have "length rest = k" by simp
  moreover have "fst (generate L i (Suc k) w) =
      (tx @ str '' This is comment #'' @ str_of_nat (i + 1)
         @ str '' about the proposed policy.'', sentiment) # rest"
    by (simp only: generate.simps s t r prod.case fst_conv)
  ultimately show ?case by simp
qed

lemma from_dict_length:
  "length texts = n \<Longrightarrow> length labels = n \<Longrightarrow> length (from_dict texts labels [0..<n]) = n"
  by (simp add: from_dict_def)

lemma from_dict_id:
  "length texts = n \<Longrightarrow> length labels = n \<Longrightarrow> i < n \<Longrightarrow>
   map_of (from_dict texts labels [0..<n] ! i) ''id'' = Some (PyInt (int i))"
  by (simp add: from_dict_def)

text \<open>The table that the generator builds, and what the split makes of it.\<close>

lemma synthetic_table:
  "\<exists>table w'. length table = n \<and>
     (\<forall>i < n. map_of (table ! i) ''id'' = Some (PyInt (int i))) \<and>
     create_synthetic_dataset L n w =
       (case train_test_split L table (2 / 10) 42 of
          Inl e \<Rightarrow> (Inl e, w')
        | Inr (train, test) \<Rightarrow> (Inr [(''train'', train), (''test'', test)], w'))"
proof -
  obtain pairs w' where g: "generate L 0 n w = (pairs, w')" by (cases "generate L 0 n w")
  then have len: "length pairs = n" using generate_length [of L 0 n w] by simp
  let ?table = "from_dict (map fst pairs) (map snd pairs) [0..<n]"
  have "length ?table = n" using len by (simp add: from_dict_length)
  moreover have "\<forall>i < n. map_of (?table ! i) ''id'' = Some (PyInt (int i))"
    using len by (simp add: from_dict_id)
  moreover have "create_synthetic_dataset L n w =
       (case train_test_split L ?table (2 / 10) 42 of
          Inl e \<Rightarrow> (Inl e, w')
        | Inr (train, test) \<Rightarrow> (Inr [(''train'', train), (''test'', test)], w'))"
    by (simp add: create_synthetic_dataset_def g)
  ultimately show ?thesis by blast
qed

lemma split_of_table:
  "train_test_split L table test_size sd =
     (case split_indices L (length table) test_size sd of
        Inl e \<Rightarrow> Inl e
      | Inr (tr, te) \<Rightarrow>
          if \<forall>i \<in> set tr. i < length table then
            if \<forall>i \<in> set te. i < length table
            then Inr (map (\<lambda>i. table ! i) tr, map (\<lambda>i. table ! i) te)
            else Inl (IndexError ''Index out of range'')
          else Inl (IndexError ''Index out of range''))"
  by (auto simp: train_test_split_def select_def split: sum.splits prod.splits)

lemma ids_of_selected:
  "\<forall>i < length table. map_of (table ! i) ''id'' = Some (PyInt (int i)) \<Longrightarrow>
   \<forall>i \<in> set indices. i < length table \<Longrightarrow>
   map (\<lambda>r. map_of r ''id'') (map (\<lambda>i. table ! i) indices) = map (\<lambda>i. Some (PyInt (int i))) indices"
  by simp

lemma synthetic_ids:
  "map_sum (\<lambda>e. e) split_ids (fst (create_synthetic_dataset L n w)) =
     (case split_indices L n (2 / 10) 42 of
        Inl e \<Rightarrow> Inl e
      | Inr (tr, te) \<Rightarrow>
          if (\<forall>i \<in> set tr. i < n) \<and> (\<forall>i \<in> set te. i < n)
          then Inr [(''train'', map (\<lambda>i. Some (PyInt (int i))) tr),
                    (''test'', map (\<lambda>i. Some (PyInt (int i))) te)]
          else Inl (IndexError ''Index out of range''))"
proof -
  from synthetic_table [of n L w] obtain table w' where
    len: "length table = n" and
    ids: "\<forall>i < n. map_of (table ! i) ''id'' = Some (PyInt (int i))" and
    c: "create_synthetic_dataset L n w =
       (case train_test_split L table (2 / 10) 42 of
          Inl e \<Rightarrow> (Inl e, w')
        | Inr (train, test) \<Rightarrow> (Inr [(''train'', train), (''test'', test)], w'))"
    by blast
  show ?thesis
    unfolding c split_of_table len using ids len
    by (auto simp: split_ids_def split: sum.splits prod.splits)
qed

lemma from_dict_label:
  "length texts = n \<Longrightarrow> length ls = n \<Longrightarrow> i < n \<Longrightarrow>
   map_of (from_dict texts ls [0..<n] ! i) ''label'' = Some (PyStr (ls ! i))"
  by (simp add: from_dict_def)

lemma synthetic_labels:
  "map_sum (\<lambda>e. e) split_labels (fst (create_synthetic_dataset L n w)) =
     (case split_indices L n (2 / 10) 42 of
        Inl e \<Rightarrow> Inl e
      | Inr (tr, te) \<Rightarrow>
          if (\<forall>i \<in> set tr. i < n) \<and> (\<forall>i \<in> set te. i < n)
          then Inr [(''train'', map (\<lambda>i. Some (PyStr (map snd (fst (generate L 0 n w)) ! i))) tr),
                    (''test'', map (\<lambda>i. Some (PyStr (map snd (fst (generate L 0 n w)) ! i))) te)]
          else Inl (IndexError ''Index out of range''))"
proof -
  obtain pairs w' where g: "generate L 0 n w = (pairs, w')" by (cases "generate L 0 n w")
  then have len: "length pairs = n" using generate_length [of L 0 n w] by simp
  let ?table = "from_dict (map fst pairs) (map snd pairs) [0..<n]"
  have tl: "length ?table = n" using len by (simp add: from_dict_length)
  have lab: "\<forall>i < n. map_of (?table ! i) ''label'' = Some (PyStr (map snd pairs ! i))"
    using len by (simp add: from_dict_label)
  have c: "create_synthetic_dataset L n w =
       (case train_test_split L ?table (2 / 10) 42 of
          Inl e \<Rightarrow> (Inl e, w')
        | Inr (train, test) \<Rightarrow> (Inr [(''train'', train), (''test'', test)], w'))"
    by (simp add: create_synthetic_dataset_def g)
  show ?thesis
    unfolding c split_of_table tl g fst_conv using lab
    by (auto simp: split_labels_def split: sum.splits prod.splits)
qed

lemma synthetic_world: "snd (create_synthetic_dataset L n w) = snd (generate L 0 n w)"
  by (simp add: create_synthetic_dataset_def split: prod.splits sum.splits)

lemma offline_split_2: "split_indices offline_library 2 (2 / 10) 42 = Inr ([1], [0])"
proof -
  have "\<lceil>(2 / 5 :: rat)\<rceil> = 1" by (rule ceiling_unique) simp_all
  then have "nat \<lceil>(2 / 10 :: rat) * of_nat 2\<rceil> = 1" by simp
  moreover have "[1..<2] = [1::nat]" "[0..<1] = [0::nat]" by (simp_all add: numeral_2_eq_2)
  ultimately show ?thesis by (simp add: offline_library_def plain_split_indices_def)
qed

lemma offline_choice: "choice offline_library seq w = (seq ! (w mod length seq), Suc w)"
  by (simp add: choice_def offline_library_def)

lemma sentiments:
  "str ''positive'' \<noteq> str ''negative''" "str ''neutral'' \<noteq> str ''positive''"
  "str ''neutral'' \<noteq> str ''negative''" "str ''negative'' \<noteq> str ''positive''"
  by (simp_all add: str_def)

lemma offline_generate_0:
  "map snd (fst (generate offline_library 0 2 0)) = [str ''positive'', str ''neutral'']"
  "snd (generate offline_library 0 2 0) = 4"
proof -
  have "map snd (fst (generate offline_library 0 (Suc (Suc 0)) 0))
          = [str ''positive'', str ''neutral'']"
    by (simp add: offline_choice sentiments mod_Suc)
  then show "map snd (fst (generate offline_library 0 2 0)) = [str ''positive'', str ''neutral'']"
    by (simp only: numeral_2_eq_2)
  have "snd (generate offline_library 0 (Suc (Suc 0)) 0) = Suc (Suc (Suc (Suc 0)))"
    by (simp add: offline_choice sentiments mod_Suc)
  moreover have "(4::nat) = Suc (Suc (Suc (Suc 0)))" by simp
  ultimately show "snd (generate offline_library 0 2 0) = 4"
    by (simp only: numeral_2_eq_2)
qed

lemma offline_generate_4:
  "map snd (fst (generate offline_library 0 2 4)) = [str ''negative'', str ''positive'']"
proof -
  have "map snd (fst (generate offline_library 0 (Suc (Suc 0)) (Suc (Suc (Suc (Suc 0))))))
     = [str ''negative'', str ''positive'']"
    by (simp add: offline_choice sentiments mod_Suc)
  moreover have "(4::nat) = Suc (Suc (Suc (Suc 0)))" by simp
  ultimately show ?thesis by (simp only: numeral_2_eq_2)
qed

lemma offline_run_1:
  "map_sum (\<lambda>e. e) split_labels (fst (create_synthetic_dataset offline_library 2 0))
     = Inr [(''train'', [Some (PyStr (str ''neutral''))]), (''test'', [Some (PyStr (str ''positive''))])]"
  "snd (create_synthetic_dataset offline_library 2 0) = 4"
  unfolding synthetic_labels synthetic_world offline_split_2 offline_generate_0
  by simp_all

lemma offline_run_2:
  "map_sum (\<lambda>e. e) split_labels (fst (create_synthetic_dataset offline_library 2 4))
     = Inr [(''train'', [Some (PyStr (str ''positive''))]), (''test'', [Some (PyStr (str ''negative''))])]"
  unfolding synthetic_labels offline_split_2 offline_generate_4
  by simp

text \<open>
  Claim C6, as stated: two calls give identical datasets. The second of two calls in a
  row starts from the generator state that the first one left, and draws other labels.
\<close>

theorem synthetic_differs_between_calls:
  "fst (create_synthetic_dataset offline_library 2
          (snd (create_synthetic_dataset offline_library 2 0)))
     \<noteq> fst (create_synthetic_dataset offline_library 2 0)"
proof
  assume "fst (create_synthetic_dataset offline_library 2
          (snd (create_synthetic_dataset offline_library 2 0)))
     = fst (create_synthetic_dataset offline_library 2 0)"
  then have "map_sum (\<lambda>e. e) split_labels (fst (create_synthetic_dataset offline_library 2 4))
     = map_sum (\<lambda>e. e) split_labels (fst (create_synthetic_dataset offline_library 2 0))"
    by (simp only: offline_run_1(2))
  then show False
    by (simp only: offline_run_1(1) offline_run_2) (simp add: sentiments)
qed

text \<open>
  Claim C6, amended. For a requested size, any two calls of \<open>create_synthetic_dataset\<close>,
  whatever the state of the random generator, give the same ids in the same order and
  the same split membership (and the same error when the split fails). The texts and
  the labels are drawn from the global generator, which the function does not seed.
\<close>

theorem synthetic_ids_deterministic:
  "map_sum (\<lambda>e. e) split_ids (fst (create_synthetic_dataset L n w1)) =
   map_sum (\<lambda>e. e) split_ids (fst (create_synthetic_dataset L n w2))"
  by (simp only: synthetic_ids)

theorem synthetic_ids_deterministic_witness:
  "map_sum (\<lambda>e. e) split_ids (fst (create_synthetic_dataset offline_library 2 0)) =
   map_sum (\<lambda>e. e) split_ids (fst (create_synthetic_dataset offline_library 2 4)) \<and>
   map_sum (\<lambda>e. e) split_ids (fst (create_synthetic_dataset offline_library 2 0)) =
   Inr [(''train'', [Some (PyInt 1)]), (''test'', [Some (PyInt 0)])]"
proof -
  have "map_sum (\<lambda>e. e) split_ids (fst (create_synthetic_dataset offline_library 2 0)) =
   Inr [(''train'', [Some (PyInt 1)]), (''test'', [Some (PyInt 0)])]"
    unfolding synthetic_ids offline_split_2 by simp
  with synthetic_ids_deterministic [of offline_library 2 0 4] show ?thesis by simp
qed


section \<open>A local file that does not exist\<close>

text \<open>
  The synthetic records hold no \<^verbatim>\<open>&\<close>: cleaning them does not reach the replacement of
  references, and returns.
\<close>

lemma clean_text_plain: "plain_value v \<Longrightarrow> \<exists>r. clean_text py v = Inr r"
proof (cases "isinstance_str v")
  case False
  then show ?thesis by (simp add: clean_text_def)
next
  case True
  then obtain s where v: "v = PyStr s" by (cases v) (simp_all add: isinstance_str_def)
  assume "plain_value v"
  with v have "unescape py s = Inr s" by (simp add: plain_value_def unescape_plain)
  with v show ?thesis by (simp add: clean_text_str)
qed

lemma map_clean_plain:
  assumes "plain_row example"
  shows "\<exists>r. map_clean py field example = Inr r"
proof -
  have "plain_value (dict_get example field (PyStr []))"
  proof (cases "map_of example field")
    case None
    then show ?thesis by (simp add: dict_get_def plain_value_def)
  next
    case (Some v)
    then have "(field, v) \<in> set example" by (rule map_of_SomeD)
    with assms Some show ?thesis by (force simp: dict_get_def plain_row_def)
  qed
  from clean_text_plain [OF this, of py] show ?thesis
    by (auto simp: map_clean_def)
qed

lemma map_result_returns:
  "\<forall>x \<in> set xs. \<exists>y. f x = Inr y \<Longrightarrow> \<exists>ys. map_result f xs = Inr ys \<and> length ys = length xs"
  by (induction xs) auto

lemma str_of_nat_plain: "38 \<notin> set (str_of_nat n)"
proof (induction n rule: str_of_nat.induct)
  case (1 n)
  show ?case
  proof (cases "n < 10")
    case True
    then show ?thesis by (subst str_of_nat.simps) simp
  next
    case False
    with 1 have "38 \<notin> set (str_of_nat (n div 10))" by simp
    moreover have "48 + n mod 10 \<noteq> 38" by simp
    ultimately show ?thesis using False by (subst str_of_nat.simps) simp
  qed
qed

lemma str_plain: "CHR ''&'' \<notin> set s \<Longrightarrow> 38 \<notin> set (str s)"
proof -
  assume a: "CHR ''&'' \<notin> set s"
  have "(of_char c :: nat) = 38 \<Longrightarrow> c = CHR ''&''" for c
  proof -
    assume "(of_char c :: nat) = 38"
    then have "(of_char c :: nat) = of_char CHR ''&''" by simp
    then show ?thesis by (simp only: of_char_eq_iff)
  qed
  with a show ?thesis by (auto simp: str_def)
qed

lemma pool_plain:
  "\<forall>t \<in> set positive_texts. 38 \<notin> set t"
  "\<forall>t \<in> set negative_texts. 38 \<notin> set t"
  "\<forall>t \<in> set neutral_texts. 38 \<notin> set t"
  by (simp_all add: positive_texts_def negative_texts_def neutral_texts_def str_plain)

lemma choice_mem: "seq \<noteq> [] \<Longrightarrow> fst (choice L seq w) \<in> set seq"
  by (simp add: choice_def split: prod.splits)

lemma generate_plain:
  "\<forall>p \<in> set (fst (generate L i k w)). 38 \<notin> set (fst p) \<and> 38 \<notin> set (snd p)"
proof (induction k arbitrary: i w)
  case 0
  show ?case by simp
next
  case (Suc k)
  obtain sentiment w1 where
    s: "choice L [str ''positive'', str ''negative'', str ''neutral''] w = (sentiment, w1)"
    by (cases "choice L [str ''positive'', str ''negative'', str ''neutral''] w")
  obtain tx w2 where
    t: "(if sentiment = str ''positive'' then choice L positive_texts w1
         else if sentiment = str ''negative'' then choice L negative_texts w1
         else choice L neutral_texts w1) = (tx, w2)"
    by (cases "if sentiment = str ''positive'' then choice L positive_texts w1
         else if sentiment = str ''negative'' then choice L negative_texts w1
         else choice L neutral_texts w1")
  obtain rest w3 where r: "generate L (i + 1) k w2 = (rest, w3)"
    by (cases "generate L (i + 1) k w2")
  have "sentiment \<in> set [str ''positive'', str ''negative'', str ''neutral'']"
    using choice_mem [of "[str ''positive'', str ''negative'', str ''neutral'']" L w] s by simp
  then have sp: "38 \<notin> set sentiment" by (auto simp: str_plain)
  have ne: "positive_texts \<noteq> []" "negative_texts \<noteq> []" "neutral_texts \<noteq> []"
    by (simp_all add: positive_texts_def negative_texts_def neutral_texts_def)
  have "tx \<in> set positive_texts \<union> set negative_texts \<union> set neutral_texts"
    using t choice_mem [OF ne(1), of L w1] choice_mem [OF ne(2), of L w1]
      choice_mem [OF ne(3), of L w1]
    by (auto split: if_splits)
  then have tp: "38 \<notin> set tx" using pool_plain by blast
  have sfx: "38 \<notin> set (str '' This is comment #'')"
    "38 \<notin> set (str '' about the proposed policy.'')"
    by (simp_all add: str_plain)
  from Suc.IH [of "i + 1" w2] r
  have "\<forall>p \<in> set rest. 38 \<notin> set (fst p) \<and> 38 \<notin> set (snd p)" by simp
  moreover have "fst (generate L i (Suc k) w) =
      (tx @ str '' This is comment #'' @ str_of_nat (i + 1)
         @ str '' about the proposed policy.'', sentiment) # rest"
    by (simp only: generate.simps s t r prod.case fst_conv)
  ultimately show ?case using sp tp sfx str_of_nat_plain [of "i + 1"] by simp
qed

lemma from_dict_plain:
  assumes "\<forall>t \<in> set texts. 38 \<notin> set t" and "\<forall>l \<in> set ls. 38 \<notin> set l"
  shows "\<forall>example \<in> set (from_dict texts ls ids). plain_row example"
proof
  fix example assume "example \<in> set (from_dict texts ls ids)"
  then obtain t l i where
    m: "(t, l, i) \<in> set (zip texts (zip ls ids))" and
    e: "example = [(''text'', PyStr t), (''label'', PyStr l), (''id'', PyInt (int i))]"
    by (auto simp: from_dict_def)
  from m have "t \<in> set texts" by (rule set_zip_leftD)
  moreover from m have "(l, i) \<in> set (zip ls ids)" by (rule set_zip_rightD)
  then have "l \<in> set ls" by (rule set_zip_leftD)
  ultimately show "plain_row example" using assms unfolding e
    by (simp add: plain_row_def plain_value_def)
qed

lemma select_rows: "select d indices = Inr d' \<Longrightarrow> set d' \<subseteq> set d"
  by (auto simp: select_def split: if_splits)

lemma synthetic_rows_plain:
  assumes "create_synthetic_dataset L n w = (Inr [(''train'', train), (''test'', test)], w')"
  shows "\<forall>example \<in> set train \<union> set test. plain_row example"
proof -
  obtain pairs w1 where g: "generate L 0 n w = (pairs, w1)" by (cases "generate L 0 n w")
  let ?table = "from_dict (map fst pairs) (map snd pairs) [0..<n]"
  from generate_plain [of L 0 n w] g
  have "\<forall>t \<in> set (map fst pairs). 38 \<notin> set t" "\<forall>l \<in> set (map snd pairs). 38 \<notin> set l"
    by simp_all
  then have p: "\<forall>example \<in> set ?table. plain_row example" by (rule from_dict_plain)
  from assms have "train_test_split L ?table (2 / 10) 42 = Inr (train, test)"
    by (simp add: create_synthetic_dataset_def g split: sum.splits prod.splits)
  then obtain tr te where "select ?table tr = Inr train" "select ?table te = Inr test"
    by (auto simp: train_test_split_def split: sum.splits prod.splits)
  then have "set train \<subseteq> set ?table" "set test \<subseteq> set ?table" by (auto dest: select_rows)
  with p show ?thesis by blast
qed

lemma synthetic_1000:
  assumes "splits_synthetic L"
  shows "\<exists>train test w'.
           create_synthetic_dataset L 1000 w = (Inr [(''train'', train), (''test'', test)], w') \<and>
           length train = 800 \<and> length test = 200"
proof -
  from synthetic_table [of 1000 L w] obtain table w' where
    len: "length table = 1000" and
    c: "create_synthetic_dataset L 1000 w =
       (case train_test_split L table (2 / 10) 42 of
          Inl e \<Rightarrow> (Inl e, w')
        | Inr (train, test) \<Rightarrow> (Inr [(''train'', train), (''test'', test)], w'))"
    by blast
  from assms obtain tr te where
    si: "split_indices L 1000 (2 / 10) 42 = Inr (tr, te)" and
    ltr: "length tr = 800" and lte: "length te = 200" and
    rng: "\<forall>i \<in> set (tr @ te). i < 1000"
    by (auto simp: splits_synthetic_def split: sum.splits prod.splits)
  from rng have "\<forall>i \<in> set tr. i < length table" "\<forall>i \<in> set te. i < length table"
    using len by auto
  then have "train_test_split L table (2 / 10) 42
               = Inr (map (\<lambda>i. table ! i) tr, map (\<lambda>i. table ! i) te)"
    unfolding split_of_table len si by simp
  with c have "create_synthetic_dataset L 1000 w =
     (Inr [(''train'', map (\<lambda>i. table ! i) tr), (''test'', map (\<lambda>i. table ! i) te)], w')"
    by simp
  with ltr lte show ?thesis by simp
qed

lemma apply_fast_limit_capped:
  "apply_fast_limit limit ds = Inr (map (\<lambda>(split_name, d). (split_name, capped limit d)) ds)"
  by (cases limit) (simp_all add: apply_fast_limit_def limit_splits_cut capped_def)

lemma capped_rows: "set (capped limit d) \<subseteq> set d"
  by (cases limit) (auto simp: capped_def cut_def dest: in_set_takeD)

lemma finish_two_splits:
  assumes "\<forall>example \<in> set train \<union> set test. plain_row example"
  shows "\<exists>cleaned_train cleaned_test.
           finish L app_cfg [(''train'', train), (''test'', test)]
             = Inr [(''train'', cleaned_train), (''test'', cleaned_test)] \<and>
           length cleaned_train = length (capped (fast_limit (data app_cfg)) train) \<and>
           length cleaned_test = length (capped (fast_limit (data app_cfg)) test)"
proof -
  let ?f = "map_clean (python L) (text_field (data app_cfg))"
  let ?limit = "fast_limit (data app_cfg)"
  from assms capped_rows [of ?limit train] capped_rows [of ?limit test]
  have "\<forall>example \<in> set (capped ?limit train). \<exists>r. ?f example = Inr r"
    "\<forall>example \<in> set (capped ?limit test). \<exists>r. ?f example = Inr r"
    by (auto intro: map_clean_plain)
  then obtain cleaned_train cleaned_test where
    a: "map_result ?f (capped ?limit train) = Inr cleaned_train"
       "length cleaned_train = length (capped ?limit train)" and
    b: "map_result ?f (capped ?limit test) = Inr cleaned_test"
       "length cleaned_test = length (capped ?limit test)"
    using map_result_returns [of "capped ?limit train" ?f]
      map_result_returns [of "capped ?limit test" ?f]
    by blast
  have "finish L app_cfg [(''train'', train), (''test'', test)]
             = Inr [(''train'', cleaned_train), (''test'', cleaned_test)]"
    by (simp add: finish_def ensure_splits_def apply_fast_limit_capped a b)
  with a(2) b(2) show ?thesis by blast
qed

lemma capped_length:
  "length (capped limit d) = (case limit of None \<Rightarrow> length d | Some n \<Rightarrow> min (length d) (nat n))"
  by (cases limit) (simp_all add: capped_def cut_length)

lemma local_missing_resolution:
  assumes "source (data app_cfg) \<in> {''local_json'', ''local_parquet'', ''csv''}"
    and "\<not> path_exists L (local_path app_cfg) w"
  shows "load_dataset_any L app_cfg w =
     (case create_synthetic_dataset L 1000 w of
        (Inr synthetic, w') \<Rightarrow> (finish L app_cfg synthetic, w')
      | (Inl e, w') \<Rightarrow> (Inl e, w'))"
  using assms
  by (auto simp: load_dataset_any_def resolve_source_def assigned_def load_local_def local_path_def
        split: prod.splits sum.splits)

lemma local_missing_synthetic:
  assumes "source (data app_cfg) \<in> {''local_json'', ''local_parquet'', ''csv''}"
    and "\<not> path_exists L (local_path app_cfg) w"
    and "splits_synthetic L"
  shows "\<exists>synthetic ds w'.
           create_synthetic_dataset L 1000 w = (Inr synthetic, w') \<and>
           finish L app_cfg synthetic = Inr ds \<and>
           load_dataset_any L app_cfg w = (Inr ds, w') \<and>
           map fst ds = [''train'', ''test''] \<and>
           total_rows ds = (case fast_limit (data app_cfg) of
                              None \<Rightarrow> 1000
                            | Some n \<Rightarrow> min 800 (nat n) + min 200 (nat n))"
proof -
  from synthetic_1000 [OF assms(3), of w] obtain train test w' where
    c: "create_synthetic_dataset L 1000 w = (Inr [(''train'', train), (''test'', test)], w')"
    and l: "length train = 800" "length test = 200"
    by blast
  from c have "\<forall>example \<in> set train \<union> set test. plain_row example"
    by (rule synthetic_rows_plain)
  from finish_two_splits [OF this, of L app_cfg] obtain cleaned_train cleaned_test where
    f: "finish L app_cfg [(''train'', train), (''test'', test)]
          = Inr [(''train'', cleaned_train), (''test'', cleaned_test)]" and
    n: "length cleaned_train = length (capped (fast_limit (data app_cfg)) train)"
       "length cleaned_test = length (capped (fast_limit (data app_cfg)) test)"
    by blast
  let ?ds = "[(''train'', cleaned_train), (''test'', cleaned_test)]"
  have a: "load_dataset_any L app_cfg w = (Inr ?ds, w')"
    unfolding local_missing_resolution [OF assms(1,2)] c using f by simp
  have t: "total_rows ?ds = (case fast_limit (data app_cfg) of
                              None \<Rightarrow> 1000
                            | Some n \<Rightarrow> min 800 (nat n) + min 200 (nat n))"
    by (simp add: total_rows_def n capped_length l split: option.splits)
  from c f a t show ?thesis by (intro exI conjI) simp_all
qed

lemma offline_splits_synthetic: "splits_synthetic offline_library"
proof -
  have "nat \<lceil>(2 / 10 :: rat) * of_nat 1000\<rceil> = 200" by simp
  then have "plain_split_indices 1000 (2 / 10) 42 = Inr ([200..<1000], [0..<200])"
    by (simp add: plain_split_indices_def del: upt_rec_numeral)
  then show ?thesis
    by (simp add: splits_synthetic_def offline_library_def del: upt_rec_numeral) auto
qed

lemma offline_csv:
  "source (data (config ''csv'' limit)) \<in> {''local_json'', ''local_parquet'', ''csv''}"
  "\<not> path_exists offline_library (local_path (config ''csv'' limit)) w"
  "fast_limit (data (config ''csv'' limit)) = limit"
  by (simp_all add: config_def offline_library_def)

text \<open>
  Claim C5, as stated: the dataset returned for a missing local file holds 1000
  records. With \<^verbatim>\<open>fast_limit = 10\<close> each split is cut to 10 records, 20 in all.
\<close>

theorem missing_local_file_capped:
  "map_sum (\<lambda>e. e) total_rows (fst (load_dataset_any offline_library (config ''csv'' (Some 10)) 0))
     \<noteq> Inr 1000"
proof -
  from local_missing_synthetic
    [of "config ''csv'' (Some 10)" offline_library 0,
     OF offline_csv(1) offline_csv(2) offline_splits_synthetic]
  obtain ds w' where
    "load_dataset_any offline_library (config ''csv'' (Some 10)) 0 = (Inr ds, w')"
    "total_rows ds = 20"
    unfolding offline_csv(3) by auto
  then show ?thesis by simp
qed

text \<open>
  Claim C5, amended. When the source is a local JSON, Parquet or CSV file that does not
  exist, \<open>load_dataset_any\<close> does not raise: it returns the synthetic dataset of 1000
  examples, finished like any other, with the splits \<^verbatim>\<open>train\<close> and \<^verbatim>\<open>test\<close>. Without a
  row cap the two splits hold 1000 records together; under a row cap \<open>n\<close> they hold
  \<open>min 800 n + min 200 n\<close>, which is 1000 from \<open>n = 800\<close> on. The library is taken to
  split the 1000 rows into 800 and 200.
\<close>

theorem missing_local_file_gives_synthetic:
  assumes "source (data app_cfg) \<in> {''local_json'', ''local_parquet'', ''csv''}"
    and "\<not> path_exists L (local_path app_cfg) w"
    and "splits_synthetic L"
  shows "\<exists>synthetic ds w'.
           create_synthetic_dataset L 1000 w = (Inr synthetic, w') \<and>
           finish L app_cfg synthetic = Inr ds \<and>
           load_dataset_any L app_cfg w = (Inr ds, w') \<and>
           map fst ds = [''train'', ''test''] \<and>
           total_rows ds = (case fast_limit (data app_cfg) of
                              None \<Rightarrow> 1000
                            | Some n \<Rightarrow> min 800 (nat n) + min 200 (nat n))"
  using assms by (rule local_missing_synthetic)

theorem missing_local_file_gives_synthetic_witness:
  "source (data (config ''csv'' None)) \<in> {''local_json'', ''local_parquet'', ''csv''} \<and>
   \<not> path_exists offline_library (local_path (config ''csv'' None)) 0 \<and>
   splits_synthetic offline_library \<and>
   (\<exists>ds w'. load_dataset_any offline_library (config ''csv'' None) 0 = (Inr ds, w') \<and>
      total_rows ds = 1000)"
proof -
  from missing_local_file_gives_synthetic
    [of "config ''csv'' None" offline_library 0,
     OF offline_csv(1) offline_csv(2) offline_splits_synthetic]
  have "\<exists>ds w'. load_dataset_any offline_library (config ''csv'' None) 0 = (Inr ds, w') \<and>
      total_rows ds = 1000"
    unfolding offline_csv(3) by auto
  with offline_csv(1,2) offline_splits_synthetic show ?thesis by blast
qed

end
